theory Spec2Isabelle
  imports Main
begin

section \<open>The manifest data model\<close>

text \<open>
  The program patches the CPU and memory requests and limits of the first container of a
  Kubernetes workload manifest. The Go types it works on come from \<^verbatim>\<open>k8s.io/api\<close>
  (version 0.33.3 in go.mod). Only the fields the program reads or writes are spelled
  out; every other field of a struct is kept in one component of type \<open>'x\<close>, so that
  "the rest of the object" is a value that a statement can speak about.

  A \<^verbatim>\<open>resource.Quantity\<close> is represented by its canonical text (\<^verbatim>\<open>100m\<close>,
  \<^verbatim>\<open>128Mi\<close>); a \<^verbatim>\<open>ResourceList\<close> is a Go map from resource names to
  quantities.
\<close>

type_synonym bytes = string
type_synonym lib_error = string
type_synonym Quantity = string
type_synonym ResourceName = string
type_synonym ResourceList = "ResourceName \<rightharpoonup> Quantity"

definition newline :: char where
  "newline = CHR 0x0A"

definition ResourceCPU :: ResourceName where
  "ResourceCPU = ''cpu''"

definition ResourceMemory :: ResourceName where
  "ResourceMemory = ''memory''"

record ResourceClaim =
  ClaimName :: string
  ClaimRequest :: string

text \<open>
  \<^verbatim>\<open>corev1.ResourceRequirements\<close> has three fields: \<^verbatim>\<open>Limits\<close>,
  \<^verbatim>\<open>Requests\<close> and \<^verbatim>\<open>Claims\<close>.
\<close>

record ResourceRequirements =
  Limits :: ResourceList
  Requests :: ResourceList
  Claims :: "ResourceClaim list"

record 'x Container =
  Name :: string
  Image :: string
  Resources :: ResourceRequirements
  ContainerOther :: 'x

record TypeMeta =
  TypeMeta_Kind :: string
  APIVersion :: string

record 'x ObjectMeta =
  ObjectMeta_Name :: string
  ObjectMetaOther :: 'x

text \<open>
  The structs that hold the container list, directly or nested, take the type of that
  field as the parameter \<open>'c\<close>: it is \<open>'x Container list\<close> in the value that the
  YAML library decodes or serialises, and a slice header in the object as it lives in
  memory while the program runs. \<^verbatim>\<open>Deployment\<close>, \<^verbatim>\<open>DaemonSet\<close>,
  \<^verbatim>\<open>StatefulSet\<close> and \<^verbatim>\<open>Job\<close> share the shape
  \<^verbatim>\<open>Spec.Template.Spec.Containers\<close>; what tells them apart is in the \<open>'x\<close>
  components and in the constructor of \<open>object\<close>, which is the Go type the value has.
\<close>

datatype (dead 'x, 'c) PodSpec =
  PodSpec (Containers: 'c) (PodSpecOther: 'x)

datatype (dead 'x, 'c) PodTemplateSpec =
  PodTemplateSpec (PodTemplate_ObjectMeta: "'x ObjectMeta") (PodTemplate_Spec: "('x, 'c) PodSpec")

datatype (dead 'x, 'c) WorkloadSpec =
  WorkloadSpec (Template: "('x, 'c) PodTemplateSpec") (WorkloadSpecOther: 'x)

datatype (dead 'x, 'c) Workload =
  Workload (Workload_TypeMeta: TypeMeta) (Workload_ObjectMeta: "'x ObjectMeta")
    (Spec: "('x, 'c) WorkloadSpec") (Status: 'x)

datatype (dead 'x, 'c) Pod =
  Pod (Pod_TypeMeta: TypeMeta) (Pod_ObjectMeta: "'x ObjectMeta")
    (Pod_Spec: "('x, 'c) PodSpec") (Pod_Status: 'x)

datatype (dead 'x, 'c) object =
    DeploymentObj "('x, 'c) Workload"
  | DaemonSetObj "('x, 'c) Workload"
  | StatefulSetObj "('x, 'c) Workload"
  | PodObj "('x, 'c) Pod"
  | JobObj "('x, 'c) Workload"

type_synonym 'x Deployment = "('x, 'x Container list) Workload"
type_synonym 'x DaemonSet = "('x, 'x Container list) Workload"
type_synonym 'x StatefulSet = "('x, 'x Container list) Workload"
type_synonym 'x Job = "('x, 'x Container list) Workload"
type_synonym 'x manifest_value = "('x, 'x Container list) object"

text \<open>The two structs that internal/k8s/k8s.go declares itself.\<close>

record typeMeta =
  Kind :: string

record ResourceConfig =
  CPURequest :: Quantity
  MemRequest :: Quantity
  CPULimit :: Quantity
  MemLimit :: Quantity

section \<open>The YAML library\<close>

text \<open>
  \<^verbatim>\<open>sigs.k8s.io/yaml\<close> is not part of the repository. Its two functions are
  parameters of the model, one decoder for each Go type at which the program calls
  \<^verbatim>\<open>yaml.Unmarshal\<close>. A call returns either an error (\<open>Inl\<close>) or its result
  (\<open>Inr\<close>): the program looks at nothing else once the error is not nil, and
  \<^verbatim>\<open>yaml.Marshal\<close> returns nil bytes with every error. The argument of
  \<open>Marshal\<close> is the Go interface value: \<open>None\<close> is the nil interface.
  Nothing is assumed about these functions; a theorem that needs a property of the
  library states it as a hypothesis.
\<close>

record 'x yaml =
  Unmarshal_typeMeta :: "bytes \<Rightarrow> lib_error + typeMeta"
  Unmarshal_Deployment :: "bytes \<Rightarrow> lib_error + 'x Deployment"
  Unmarshal_DaemonSet :: "bytes \<Rightarrow> lib_error + 'x DaemonSet"
  Unmarshal_StatefulSet :: "bytes \<Rightarrow> lib_error + 'x StatefulSet"
  Unmarshal_Pod :: "bytes \<Rightarrow> lib_error + ('x, 'x Container list) Pod"
  Unmarshal_Job :: "bytes \<Rightarrow> lib_error + 'x Job"
  Marshal :: "'x manifest_value option \<Rightarrow> lib_error + bytes"

section \<open>Memory: container arrays and slices\<close>

text \<open>
  The program writes \<^verbatim>\<open>containers[0].Resources\<close> through a slice that it
  copied out of the decoded object, and then serialises the object. The write reaches
  the object because a Go slice is a header (pointer, length) onto a backing array and
  both headers point to the same array. The store makes this explicit: \<open>arrays\<close> maps
  an address to a backing array, an object in memory holds a \<open>slice\<close> in its
  \<^verbatim>\<open>Containers\<close> field, and the serialiser reads the array behind it.
  An index outside the slice is a run-time panic in Go; \<open>store_Resources\<close> returns
  \<open>None\<close> there.
\<close>

type_synonym addr = nat

record slice =
  array :: addr
  len :: nat

record 'x heap =
  arrays :: "addr \<rightharpoonup> 'x Container list"
  free :: addr

definition heap0 :: "'x heap" where
  "heap0 = \<lparr>arrays = Map.empty, free = 0\<rparr>"

definition alloc :: "'x heap \<Rightarrow> 'x Container list \<Rightarrow> slice \<times> 'x heap" where
  "alloc h xs =
     (\<lparr>array = free h, len = length xs\<rparr>,
      h\<lparr>arrays := (arrays h)(free h \<mapsto> xs), free := Suc (free h)\<rparr>)"

definition load :: "'x heap \<Rightarrow> slice \<Rightarrow> 'x Container list" where
  "load h s = (case arrays h (array s) of None \<Rightarrow> [] | Some xs \<Rightarrow> take (len s) xs)"

definition store_Resources ::
    "'x heap \<Rightarrow> slice \<Rightarrow> nat \<Rightarrow> ResourceRequirements \<Rightarrow> 'x heap option" where
  "store_Resources h s i r =
     (case arrays h (array s) of
        None \<Rightarrow> None
      | Some xs \<Rightarrow>
          if i < len s \<and> i < length xs
          then Some (h\<lparr>arrays := (arrays h)(array s \<mapsto> xs[i := (xs ! i)\<lparr>Resources := r\<rparr>])\<rparr>)
          else None)"

text \<open>
  \<^verbatim>\<open>var obj T; yaml.Unmarshal(data, &obj)\<close> fills a fresh object: the decoded
  container list becomes a new backing array and the object holds the slice onto it.
\<close>

definition new_Workload ::
    "'x heap \<Rightarrow> ('x, 'x Container list) Workload \<Rightarrow> ('x, slice) Workload \<times> 'x heap" where
  "new_Workload h v =
     (case alloc h (Containers (PodTemplate_Spec (Template (Spec v)))) of
        (s, h') \<Rightarrow> (map_Workload (\<lambda>_. s) v, h'))"

definition new_Pod :: "'x heap \<Rightarrow> ('x, 'x Container list) Pod \<Rightarrow> ('x, slice) Pod \<times> 'x heap" where
  "new_Pod h v =
     (case alloc h (Containers (Pod_Spec v)) of
        (s, h') \<Rightarrow> (map_Pod (\<lambda>_. s) v, h'))"

text \<open>
  The manifest variable has the Go type \<^verbatim>\<open>any\<close>: nil, or a pointer to one of the
  five typed objects.
\<close>

type_synonym 'x manifest = "('x, slice) object option"

section \<open>Errors and results\<close>

text \<open>
  Each constructor is one \<^verbatim>\<open>fmt.Errorf\<close> of the source; \<open>Error\<close> gives the message
  (Go's \<^verbatim>\<open>err.Error()\<close>). \<open>LibraryError\<close> is an error of the YAML library that
  the program returns as it is. The last two are the messages of \<^verbatim>\<open>updateResource\<close>
  in package main, which are capitalised.

  A call of \<^verbatim>\<open>Patch\<close> returns the Go pair (bytes, error), each of them possibly
  nil, or it panics. The second component of a model function's result is what the call
  printed on standard output.
\<close>

datatype error =
    YAMLUnmarshalError lib_error
  | UnsupportedKind string
  | ExtractFailed string lib_error
  | NoContainers string
  | LibraryError lib_error
  | UnsupportedKind_main string
  | NoContainers_main string

fun Error :: "error \<Rightarrow> string" where
  "Error (YAMLUnmarshalError err) = ''YAML unmarshal error: '' @ err"
| "Error (UnsupportedKind kind) = ''unsupported kind: '' @ kind"
| "Error (ExtractFailed kind err) = ''failed to extract containers for kind '' @ kind @ '': '' @ err"
| "Error (NoContainers kind) = ''no containers found in '' @ kind"
| "Error (LibraryError err) = err"
| "Error (UnsupportedKind_main kind) = ''Unsupported kind: '' @ kind"
| "Error (NoContainers_main kind) = ''No containers found in '' @ kind"

datatype outcome = Return "bytes option" "error option" | Panic

definition returned :: "lib_error + bytes \<Rightarrow> outcome" where
  "returned r =
     (case r of
        Inl err \<Rightarrow> Return None (Some (LibraryError err))
      | Inr out \<Rightarrow> Return (Some out) None)"

section \<open>internal/k8s/k8s.go\<close>

definition unmarshalK8sResource ::
    "(bytes \<Rightarrow> lib_error + 'v) \<Rightarrow> ('x heap \<Rightarrow> 'v \<Rightarrow> 't \<times> 'x heap) \<Rightarrow> bytes \<Rightarrow> 'x heap
      \<Rightarrow> (lib_error + 't) \<times> 'x heap" where
  "unmarshalK8sResource Unmarshal_T new_T data h =
     (case Unmarshal_T data of
        Inl err \<Rightarrow> (Inl err, h)
      | Inr v \<Rightarrow> (case new_T h v of (obj, h') \<Rightarrow> (Inr obj, h')))"

definition getKind :: "'x yaml \<Rightarrow> bytes \<Rightarrow> string \<times> error option" where
  "getKind y data =
     (case Unmarshal_typeMeta y data of
        Inl err \<Rightarrow> ([], Some (YAMLUnmarshalError err))
      | Inr tm \<Rightarrow> (Kind tm, None))"

type_synonym 'x containerExtractor =
  "bytes \<Rightarrow> 'x heap \<Rightarrow> (lib_error + 'x manifest \<times> slice) \<times> 'x heap"

text \<open>
  \<^verbatim>\<open>newExtractor[T]\<close> is generic in the Go type \<open>T\<close>. The model passes what the
  instance at \<open>T\<close> consists of: the decoder of the library at \<open>T\<close>, the allocation of
  a \<open>T\<close>, the boxing of a \<^verbatim>\<open>*T\<close> as \<^verbatim>\<open>any\<close>, and the closure
  \<^verbatim>\<open>getContainers\<close>.
\<close>

definition newExtractor ::
    "(bytes \<Rightarrow> lib_error + 'v) \<Rightarrow> ('x heap \<Rightarrow> 'v \<Rightarrow> 't \<times> 'x heap) \<Rightarrow> ('t \<Rightarrow> ('x, slice) object)
      \<Rightarrow> ('t \<Rightarrow> slice) \<Rightarrow> 'x containerExtractor" where
  "newExtractor Unmarshal_T new_T box getContainers file h =
     (case unmarshalK8sResource Unmarshal_T new_T file h of
        (Inl err, h') \<Rightarrow> (Inl err, h')
      | (Inr obj, h') \<Rightarrow> (Inr (Some (box obj), getContainers obj), h'))"

definition extractorMap :: "'x yaml \<Rightarrow> string \<rightharpoonup> 'x containerExtractor" where
  "extractorMap y = map_of
     [(''Deployment'', newExtractor (Unmarshal_Deployment y) new_Workload DeploymentObj
         (\<lambda>obj. Containers (PodTemplate_Spec (Template (Spec obj))))),
      (''DaemonSet'', newExtractor (Unmarshal_DaemonSet y) new_Workload DaemonSetObj
         (\<lambda>obj. Containers (PodTemplate_Spec (Template (Spec obj))))),
      (''StatefulSet'', newExtractor (Unmarshal_StatefulSet y) new_Workload StatefulSetObj
         (\<lambda>obj. Containers (PodTemplate_Spec (Template (Spec obj))))),
      (''Pod'', newExtractor (Unmarshal_Pod y) new_Pod PodObj
         (\<lambda>obj. Containers (Pod_Spec obj))),
      (''Job'', newExtractor (Unmarshal_Job y) new_Workload JobObj
         (\<lambda>obj. Containers (PodTemplate_Spec (Template (Spec obj)))))]"

text \<open>
  \<^verbatim>\<open>yaml.Marshal(manifest)\<close> follows the pointer and the slice: the library sees the
  object with the container list that is in the backing array at that moment.
\<close>

definition yaml_Marshal :: "'x yaml \<Rightarrow> 'x heap \<Rightarrow> 'x manifest \<Rightarrow> outcome" where
  "yaml_Marshal y h manifest = returned (Marshal y (map_option (map_object (load h)) manifest))"

text \<open>
  The composite literal \<^verbatim>\<open>corev1.ResourceRequirements{Requests: ..., Limits: ...}\<close>
  that is assigned to \<^verbatim>\<open>containers[0].Resources\<close>. A field the literal does not name
  has its zero value.
\<close>

definition newResources :: "ResourceConfig \<Rightarrow> ResourceRequirements" where
  "newResources resCfg =
     \<lparr>Limits = [ResourceCPU \<mapsto> CPULimit resCfg, ResourceMemory \<mapsto> MemLimit resCfg],
      Requests = [ResourceCPU \<mapsto> CPURequest resCfg, ResourceMemory \<mapsto> MemRequest resCfg],
      Claims = []\<rparr>"

definition multipleContainersWarning :: "string \<Rightarrow> string" where
  "multipleContainersWarning kind =
     ''Warning: Multiple containers found in '' @ kind @ '', updating only the first one''
       @ [newline]"

definition Patch :: "'x yaml \<Rightarrow> bytes \<Rightarrow> ResourceConfig \<Rightarrow> outcome \<times> string list" where
  "Patch y file resCfg =
     (case getKind y file of
        (kind, Some err) \<Rightarrow> (Return None (Some err), [])
      | (kind, None) \<Rightarrow>
          (case extractorMap y kind of
             None \<Rightarrow> (Return None (Some (UnsupportedKind kind)), [])
           | Some extractor \<Rightarrow>
               (case extractor file heap0 of
                  (Inl err, h) \<Rightarrow> (Return None (Some (ExtractFailed kind err)), [])
                | (Inr (manifest, containers), h) \<Rightarrow>
                    if len containers = 0
                    then (Return None (Some (NoContainers kind)), [])
                    else
                      let stdout = (if len containers > 1
                                    then [multipleContainersWarning kind] else [])
                      in (case store_Resources h containers 0 (newResources resCfg) of
                            None \<Rightarrow> (Panic, stdout)
                          | Some h' \<Rightarrow> (yaml_Marshal y h' manifest, stdout)))))"

section \<open>Package main: updateResource\<close>

text \<open>
  The single-file program keeps its own copy of the patcher. Its \<^verbatim>\<open>switch\<close> on the
  kind either returns at once (\<open>Inl\<close>) or leaves \<^verbatim>\<open>manifest\<close> and
  \<^verbatim>\<open>containers\<close> for the statements after it (\<open>Inr\<close>). The case
  \<^verbatim>\<open>"Pod"\<close> assigns \<^verbatim>\<open>containers\<close> and not \<^verbatim>\<open>manifest\<close>, which
  keeps its initial value nil.
\<close>

definition getK8SKind :: "'x yaml \<Rightarrow> bytes \<Rightarrow> string \<times> error option" where
  "getK8SKind y data =
     (case Unmarshal_typeMeta y data of
        Inl err \<Rightarrow> ([], Some (YAMLUnmarshalError err))
      | Inr tm \<Rightarrow> (Kind tm, None))"

definition updateResource :: "'x yaml \<Rightarrow> bytes \<Rightarrow> ResourceConfig \<Rightarrow> outcome \<times> string list" where
  "updateResource y file resCfg =
     (case getK8SKind y file of
        (kind, Some err) \<Rightarrow>
          (Return None (Some err), [''Error getting Kubernetes kind: '' @ Error err @ [newline]])
      | (kind, None) \<Rightarrow>
          (case
             (if kind = ''Deployment'' then
                (case unmarshalK8sResource (Unmarshal_Deployment y) new_Workload file heap0 of
                   (Inl err, h) \<Rightarrow>
                     Inl (Return None (Some (LibraryError err)), [''Unmarshal error: '' @ err @ [newline]])
                 | (Inr obj, h) \<Rightarrow>
                     Inr (Some (DeploymentObj obj), Containers (PodTemplate_Spec (Template (Spec obj))), h))
              else if kind = ''DaemonSet'' then
                (case unmarshalK8sResource (Unmarshal_DaemonSet y) new_Workload file heap0 of
                   (Inl err, h) \<Rightarrow>
                     Inl (Return None (Some (LibraryError err)), [''Unmarshal error: '' @ err @ [newline]])
                 | (Inr obj, h) \<Rightarrow>
                     Inr (Some (DaemonSetObj obj), Containers (PodTemplate_Spec (Template (Spec obj))), h))
              else if kind = ''StatefulSet'' then
                (case unmarshalK8sResource (Unmarshal_StatefulSet y) new_Workload file heap0 of
                   (Inl err, h) \<Rightarrow>
                     Inl (Return None (Some (LibraryError err)), [''Unmarshal error: '' @ err @ [newline]])
                 | (Inr obj, h) \<Rightarrow>
                     Inr (Some (StatefulSetObj obj), Containers (PodTemplate_Spec (Template (Spec obj))), h))
              else if kind = ''Pod'' then
                (case unmarshalK8sResource (Unmarshal_Pod y) new_Pod file heap0 of
                   (Inl err, h) \<Rightarrow>
                     Inl (Return None (Some (LibraryError err)), [''Unmarshal error: '' @ err @ [newline]])
                 | (Inr obj, h) \<Rightarrow>
                     Inr (None, Containers (Pod_Spec obj), h))
              else if kind = ''Job'' then
                (case unmarshalK8sResource (Unmarshal_Job y) new_Workload file heap0 of
                   (Inl err, h) \<Rightarrow>
                     Inl (Return None (Some (LibraryError err)), [''Unmarshal error: '' @ err @ [newline]])
                 | (Inr obj, h) \<Rightarrow>
                     Inr (Some (JobObj obj), Containers (PodTemplate_Spec (Template (Spec obj))), h))
              else Inl (Return None (Some (UnsupportedKind_main kind)), []))
           of
             Inl early \<Rightarrow> early
           | Inr (manifest, containers, h) \<Rightarrow>
               if len containers = 0
               then (Return None (Some (NoContainers_main kind)), [])
               else
                 let stdout = (if len containers > 1
                               then [multipleContainersWarning kind] else [])
                 in (case store_Resources h containers 0 (newResources resCfg) of
                       None \<Rightarrow> (Panic, stdout)
                     | Some h' \<Rightarrow>
                         (case Marshal y (map_option (map_object (load h')) manifest) of
                            Inl err \<Rightarrow>
                              (Return None (Some (LibraryError err)),
                               stdout @ [''YAML marshal error: '' @ err @ [newline]])
                          | Inr v \<Rightarrow> (Return (Some v) None, stdout)))))"

section \<open>scripts/get_gitlab_repos.go: updateEnvFile\<close>

text \<open>
  \<^verbatim>\<open>strings.Split\<close> at a one-byte separator (the source passes \<^verbatim>\<open>"\n"\<close>),
  \<^verbatim>\<open>strings.Join\<close> and \<^verbatim>\<open>strings.HasPrefix\<close>. Go strings are byte
  sequences, as \<open>string\<close> is here.
\<close>

fun strings_Split :: "string \<Rightarrow> char \<Rightarrow> string list" where
  "strings_Split [] sep = [[]]"
| "strings_Split (c # cs) sep =
     (if c = sep then [] # strings_Split cs sep
      else (case strings_Split cs sep of
              [] \<Rightarrow> [[c]]
            | l # ls \<Rightarrow> (c # l) # ls))"

fun strings_Join :: "string list \<Rightarrow> string \<Rightarrow> string" where
  "strings_Join [] sep = []"
| "strings_Join [x] sep = x"
| "strings_Join (x # y # ys) sep = x @ sep @ strings_Join (y # ys) sep"

definition strings_HasPrefix :: "string \<Rightarrow> string \<Rightarrow> bool" where
  "strings_HasPrefix s p = (take (length p) s = p)"

text \<open>The first loop copies the lines that are not empty.\<close>

fun skipEmpty :: "string list \<Rightarrow> string list" where
  "skipEmpty [] = []"
| "skipEmpty (line # rest) =
     (if line \<noteq> [] then line # skipEmpty rest else skipEmpty rest)"

text \<open>
  The second loop overwrites the first line that starts with \<^verbatim>\<open>key + "="\<close> and
  breaks; the result is the lines and the flag \<^verbatim>\<open>found\<close>.
\<close>

fun replaceFirst :: "string list \<Rightarrow> string \<Rightarrow> string \<Rightarrow> string list \<times> bool" where
  "replaceFirst [] key newLine = ([], False)"
| "replaceFirst (line # rest) key newLine =
     (if strings_HasPrefix line (key @ ''='') then (newLine # rest, True)
      else (case replaceFirst rest key newLine of
              (rest', found) \<Rightarrow> (line # rest', found)))"

definition rewriteLines :: "string \<Rightarrow> string \<Rightarrow> string \<Rightarrow> string list" where
  "rewriteLines input key val =
     (let lines = strings_Split input newline;
          newLine = key @ ''='' @ val;
          lines = skipEmpty lines;
          (lines, found) = replaceFirst lines key newLine;
          lines = (if \<not> found then lines @ [newLine] else lines)
      in lines)"

text \<open>
  The result of \<^verbatim>\<open>os.ReadFile\<close>: the content, the error that the file does not
  exist (the input is then empty), or another error, on which the function ends the
  process with \<^verbatim>\<open>log.Fatalf\<close>. \<open>updateEnvFile\<close> gives the content that it hands
  to \<^verbatim>\<open>os.WriteFile\<close>, and \<open>None\<close> when the process ended before.
\<close>

datatype read_result = ReadOK string | ErrNotExist | ErrOther

definition updateEnvFile :: "read_result \<Rightarrow> string \<Rightarrow> string \<Rightarrow> string option" where
  "updateEnvFile rd key val =
     (case rd of
        ErrOther \<Rightarrow> None
      | ErrNotExist \<Rightarrow> Some (strings_Join (rewriteLines [] key val) [newline] @ [newline])
      | ReadOK input \<Rightarrow> Some (strings_Join (rewriteLines input key val) [newline] @ [newline]))"

section \<open>Describing a call by the values the library decodes\<close>

text \<open>
  The functions of this section are not in the source. They name what the statements
  below speak about: the five kinds of \<open>extractorMap\<close>; the typed decoding that the
  entry of a kind performs; the container list, the type meta and the object meta of a
  decoded value (the equations of \<open>object_Containers\<close> are the five closures of
  \<open>extractorMap\<close>); a value without its container list; and the value with the new
  resource requirements in its first container.
\<close>

definition supportedKinds :: "string list" where
  "supportedKinds = [''Deployment'', ''DaemonSet'', ''StatefulSet'', ''Pod'', ''Job'']"

definition Unmarshal_as ::
    "'x yaml \<Rightarrow> string \<Rightarrow> bytes \<Rightarrow> (lib_error + 'x manifest_value) option" where
  "Unmarshal_as y kind file =
     (if kind = ''Deployment'' then Some (map_sum id DeploymentObj (Unmarshal_Deployment y file))
      else if kind = ''DaemonSet'' then Some (map_sum id DaemonSetObj (Unmarshal_DaemonSet y file))
      else if kind = ''StatefulSet'' then Some (map_sum id StatefulSetObj (Unmarshal_StatefulSet y file))
      else if kind = ''Pod'' then Some (map_sum id PodObj (Unmarshal_Pod y file))
      else if kind = ''Job'' then Some (map_sum id JobObj (Unmarshal_Job y file))
      else None)"

fun object_Containers :: "('x, 'c) object \<Rightarrow> 'c" where
  "object_Containers (DeploymentObj obj) = Containers (PodTemplate_Spec (Template (Spec obj)))"
| "object_Containers (DaemonSetObj obj) = Containers (PodTemplate_Spec (Template (Spec obj)))"
| "object_Containers (StatefulSetObj obj) = Containers (PodTemplate_Spec (Template (Spec obj)))"
| "object_Containers (PodObj obj) = Containers (Pod_Spec obj)"
| "object_Containers (JobObj obj) = Containers (PodTemplate_Spec (Template (Spec obj)))"

fun object_TypeMeta :: "('x, 'c) object \<Rightarrow> TypeMeta" where
  "object_TypeMeta (DeploymentObj obj) = Workload_TypeMeta obj"
| "object_TypeMeta (DaemonSetObj obj) = Workload_TypeMeta obj"
| "object_TypeMeta (StatefulSetObj obj) = Workload_TypeMeta obj"
| "object_TypeMeta (PodObj obj) = Pod_TypeMeta obj"
| "object_TypeMeta (JobObj obj) = Workload_TypeMeta obj"

fun object_ObjectMeta :: "('x, 'c) object \<Rightarrow> 'x ObjectMeta" where
  "object_ObjectMeta (DeploymentObj obj) = Workload_ObjectMeta obj"
| "object_ObjectMeta (DaemonSetObj obj) = Workload_ObjectMeta obj"
| "object_ObjectMeta (StatefulSetObj obj) = Workload_ObjectMeta obj"
| "object_ObjectMeta (PodObj obj) = Pod_ObjectMeta obj"
| "object_ObjectMeta (JobObj obj) = Workload_ObjectMeta obj"

definition without_Containers :: "('x, 'c) object \<Rightarrow> ('x, unit) object" where
  "without_Containers v = map_object (\<lambda>_. ()) v"

definition patched :: "ResourceConfig \<Rightarrow> 'x manifest_value \<Rightarrow> 'x manifest_value" where
  "patched resCfg v =
     map_object
       (\<lambda>containers. containers[0 := (containers ! 0)\<lparr>Resources := newResources resCfg\<rparr>]) v"

definition Patch_on_values :: "'x yaml \<Rightarrow> bytes \<Rightarrow> ResourceConfig \<Rightarrow> outcome \<times> string list" where
  "Patch_on_values y file resCfg =
     (case Unmarshal_typeMeta y file of
        Inl err \<Rightarrow> (Return None (Some (YAMLUnmarshalError err)), [])
      | Inr tm \<Rightarrow>
          (case Unmarshal_as y (Kind tm) file of
             None \<Rightarrow> (Return None (Some (UnsupportedKind (Kind tm))), [])
           | Some (Inl err) \<Rightarrow> (Return None (Some (ExtractFailed (Kind tm) err)), [])
           | Some (Inr v) \<Rightarrow>
               (case object_Containers v of
                  [] \<Rightarrow> (Return None (Some (NoContainers (Kind tm))), [])
                | c # cs \<Rightarrow>
                    (returned (Marshal y (Some (patched resCfg v))),
                     if cs = [] then [] else [multipleContainersWarning (Kind tm)]))))"

section \<open>A stand-in for the library, on the manifests of the tests\<close>

text \<open>
  To evaluate the model on concrete manifests, \<open>yaml_fixture\<close> decodes a fixed table
  of documents and serialises the fields that the model spells out. The first five
  documents are the inputs of internal/k8s/k8s_test.go, with the resource quantities of
  that test; the others add a Pod, a second container, a container that already has
  resource requirements, and a document with no kind. It stands for the library only
  where a closed statement needs one: no general theorem mentions it.
\<close>

definition resCfg_test :: ResourceConfig where
  "resCfg_test = \<lparr>CPURequest = ''100m'', MemRequest = ''128Mi'', CPULimit = ''200m'', MemLimit = ''256Mi''\<rparr>"

definition test_container :: "unit Container" where
  "test_container =
     \<lparr>Name = ''test-container'', Image = ''nginx'',
      Resources = \<lparr>Limits = Map.empty, Requests = Map.empty, Claims = []\<rparr>,
      ContainerOther = ()\<rparr>"

definition sidecar_container :: "unit Container" where
  "sidecar_container =
     \<lparr>Name = ''sidecar'', Image = ''envoy'',
      Resources = \<lparr>Limits = [''cpu'' \<mapsto> ''1''], Requests = [''cpu'' \<mapsto> ''500m''], Claims = []\<rparr>,
      ContainerOther = ()\<rparr>"

definition gpu_container :: "unit Container" where
  "gpu_container =
     \<lparr>Name = ''test-container'', Image = ''nginx'',
      Resources = \<lparr>Limits = [''ephemeral-storage'' \<mapsto> ''2Gi''],
                   Requests = [''cpu'' \<mapsto> ''50m'', ''ephemeral-storage'' \<mapsto> ''1Gi''],
                   Claims = [\<lparr>ClaimName = ''gpu'', ClaimRequest = []\<rparr>]\<rparr>,
      ContainerOther = ()\<rparr>"

definition test_workload ::
    "string \<Rightarrow> string \<Rightarrow> unit Container list \<Rightarrow> (unit, unit Container list) Workload" where
  "test_workload kind name cs =
     Workload \<lparr>TypeMeta_Kind = kind, APIVersion = ''apps/v1''\<rparr>
       \<lparr>ObjectMeta_Name = name, ObjectMetaOther = ()\<rparr>
       (WorkloadSpec (PodTemplateSpec \<lparr>ObjectMeta_Name = [], ObjectMetaOther = ()\<rparr> (PodSpec cs ())) ())
       ()"

definition test_pod :: "(unit, unit Container list) Pod" where
  "test_pod =
     Pod \<lparr>TypeMeta_Kind = ''Pod'', APIVersion = ''v1''\<rparr>
       \<lparr>ObjectMeta_Name = ''test-pod'', ObjectMetaOther = ()\<rparr>
       (PodSpec [test_container] ()) ()"

definition render_quantities :: "string \<Rightarrow> ResourceList \<Rightarrow> string" where
  "render_quantities indent m =
     concat (map (\<lambda>k. case m k of None \<Rightarrow> [] | Some q \<Rightarrow> indent @ ''    '' @ k @ '': '' @ q @ [newline])
       [''cpu'', ''ephemeral-storage'', ''memory''])"

definition render_section :: "string \<Rightarrow> string \<Rightarrow> string \<Rightarrow> string" where
  "render_section indent name body =
     (if body = [] then [] else indent @ ''  '' @ name @ '':'' @ [newline] @ body)"

definition render_Resources :: "string \<Rightarrow> ResourceRequirements \<Rightarrow> string" where
  "render_Resources indent r =
     render_section indent ''resources''
       (render_section (indent @ ''  '') ''claims''
          (concat (map (\<lambda>c. indent @ ''    - name: '' @ ClaimName c @ [newline]) (Claims r)))
        @ render_section (indent @ ''  '') ''limits'' (render_quantities (indent @ ''  '') (Limits r))
        @ render_section (indent @ ''  '') ''requests'' (render_quantities (indent @ ''  '') (Requests r)))"

definition render_Container :: "string \<Rightarrow> unit Container \<Rightarrow> string" where
  "render_Container indent c =
     indent @ ''- image: '' @ Image c @ [newline]
     @ indent @ ''  name: '' @ Name c @ [newline]
     @ render_Resources indent (Resources c)"

definition render_header :: "TypeMeta \<Rightarrow> unit ObjectMeta \<Rightarrow> string" where
  "render_header tm om =
     ''apiVersion: '' @ APIVersion tm @ [newline]
     @ ''kind: '' @ TypeMeta_Kind tm @ [newline]
     @ ''metadata:'' @ [newline]
     @ ''  name: '' @ ObjectMeta_Name om @ [newline]
     @ ''spec:'' @ [newline]"

definition render :: "unit manifest_value \<Rightarrow> string" where
  "render v =
     render_header (object_TypeMeta v) (object_ObjectMeta v)
     @ (case v of
          PodObj obj \<Rightarrow> ''  containers:'' @ [newline]
            @ concat (map (render_Container ''  '') (object_Containers v))
        | _ \<Rightarrow> ''  template:'' @ [newline] @ ''    spec:'' @ [newline]
            @ ''      containers:'' @ [newline]
            @ concat (map (render_Container ''      '') (object_Containers v)))"

definition deployment_yaml :: bytes where
  "deployment_yaml =
     ''\<newline>apiVersion: apps/v1\<newline>kind: Deployment\<newline>metadata:\<newline>  name: test-deployment\<newline>spec:\<newline>  template:\<newline>    spec:\<newline>      containers:\<newline>      - name: test-container\<newline>        image: nginx''"

definition daemonset_yaml :: bytes where
  "daemonset_yaml =
     ''\<newline>apiVersion: apps/v1\<newline>kind: DaemonSet\<newline>metadata:\<newline>  name: test-daemonset\<newline>spec:\<newline>  template:\<newline>    spec:\<newline>      containers:\<newline>      - name: test-container\<newline>        image: nginx''"

definition service_yaml :: bytes where
  "service_yaml =
     ''\<newline>apiVersion: v1\<newline>kind: Service\<newline>metadata:\<newline>  name: test-service''"

definition invalid_yaml :: bytes where
  "invalid_yaml = ''invalid: [not yaml''"

definition no_containers_yaml :: bytes where
  "no_containers_yaml =
     ''\<newline>apiVersion: apps/v1\<newline>kind: Deployment\<newline>metadata:\<newline>  name: test-deployment\<newline>spec:\<newline>  template:\<newline>    spec:\<newline>      containers: []''"

definition pod_yaml :: bytes where
  "pod_yaml =
     ''apiVersion: v1\<newline>kind: Pod\<newline>metadata:\<newline>  name: test-pod\<newline>spec:\<newline>  containers:\<newline>  - name: test-container\<newline>    image: nginx\<newline>''"

definition no_kind_yaml :: bytes where
  "no_kind_yaml = ''apiVersion: v1\<newline>metadata:\<newline>  name: test-service\<newline>''"

definition two_containers_yaml :: bytes where
  "two_containers_yaml =
     ''apiVersion: apps/v1\<newline>kind: Deployment\<newline>metadata:\<newline>  name: test-deployment\<newline>spec:\<newline>  template:\<newline>    spec:\<newline>      containers:\<newline>      - image: nginx\<newline>        name: test-container\<newline>      - image: envoy\<newline>        name: sidecar\<newline>        resources:\<newline>          limits:\<newline>            cpu: 1\<newline>          requests:\<newline>            cpu: 500m\<newline>''"

definition claims_yaml :: bytes where
  "claims_yaml =
     ''apiVersion: apps/v1\<newline>kind: Deployment\<newline>metadata:\<newline>  name: test-deployment\<newline>spec:\<newline>  template:\<newline>    spec:\<newline>      containers:\<newline>      - image: nginx\<newline>        name: test-container\<newline>        resources:\<newline>          claims:\<newline>          - name: gpu\<newline>          limits:\<newline>            ephemeral-storage: 2Gi\<newline>          requests:\<newline>            cpu: 50m\<newline>            ephemeral-storage: 1Gi\<newline>''"

definition patched_yaml :: bytes where
  "patched_yaml =
     ''apiVersion: apps/v1\<newline>kind: Deployment\<newline>metadata:\<newline>  name: test-deployment\<newline>spec:\<newline>  template:\<newline>    spec:\<newline>      containers:\<newline>      - image: nginx\<newline>        name: test-container\<newline>        resources:\<newline>          limits:\<newline>            cpu: 200m\<newline>            memory: 256Mi\<newline>          requests:\<newline>            cpu: 100m\<newline>            memory: 128Mi\<newline>''"

definition patched_two_containers_yaml :: bytes where
  "patched_two_containers_yaml =
     ''apiVersion: apps/v1\<newline>kind: Deployment\<newline>metadata:\<newline>  name: test-deployment\<newline>spec:\<newline>  template:\<newline>    spec:\<newline>      containers:\<newline>      - image: nginx\<newline>        name: test-container\<newline>        resources:\<newline>          limits:\<newline>            cpu: 200m\<newline>            memory: 256Mi\<newline>          requests:\<newline>            cpu: 100m\<newline>            memory: 128Mi\<newline>      - image: envoy\<newline>        name: sidecar\<newline>        resources:\<newline>          limits:\<newline>            cpu: 1\<newline>          requests:\<newline>            cpu: 500m\<newline>''"

definition fixture_lookup :: "(bytes \<times> 'a) list \<Rightarrow> bytes \<Rightarrow> lib_error + 'a" where
  "fixture_lookup table data =
     (case map_of table data of
        None \<Rightarrow> Inl ''not a document of the fixture''
      | Some v \<Rightarrow> Inr v)"

definition yaml_fixture :: "unit yaml" where
  "yaml_fixture =
     \<lparr>Unmarshal_typeMeta = (\<lambda>data.
        if data = invalid_yaml
        then Inl ''error converting YAML to JSON: yaml: line 1: flow sequence is not closed''
        else fixture_lookup
          [(deployment_yaml, \<lparr>Kind = ''Deployment''\<rparr>),
           (daemonset_yaml, \<lparr>Kind = ''DaemonSet''\<rparr>),
           (service_yaml, \<lparr>Kind = ''Service''\<rparr>),
           (no_containers_yaml, \<lparr>Kind = ''Deployment''\<rparr>),
           (pod_yaml, \<lparr>Kind = ''Pod''\<rparr>),
           (no_kind_yaml, \<lparr>Kind = []\<rparr>),
           (two_containers_yaml, \<lparr>Kind = ''Deployment''\<rparr>),
           (claims_yaml, \<lparr>Kind = ''Deployment''\<rparr>),
           (patched_yaml, \<lparr>Kind = ''Deployment''\<rparr>)] data),
      Unmarshal_Deployment = fixture_lookup
        [(deployment_yaml, test_workload ''Deployment'' ''test-deployment'' [test_container]),
         (no_containers_yaml, test_workload ''Deployment'' ''test-deployment'' []),
         (two_containers_yaml,
            test_workload ''Deployment'' ''test-deployment'' [test_container, sidecar_container]),
         (claims_yaml, test_workload ''Deployment'' ''test-deployment'' [gpu_container]),
         (patched_yaml,
            test_workload ''Deployment'' ''test-deployment''
              [test_container\<lparr>Resources := newResources resCfg_test\<rparr>])],
      Unmarshal_DaemonSet = fixture_lookup
        [(daemonset_yaml, test_workload ''DaemonSet'' ''test-daemonset'' [test_container])],
      Unmarshal_StatefulSet = fixture_lookup [],
      Unmarshal_Pod = fixture_lookup [(pod_yaml, test_pod)],
      Unmarshal_Job = fixture_lookup [],
      Marshal = (\<lambda>obj. case obj of None \<Rightarrow> Inr (''null'' @ [newline]) | Some v \<Rightarrow> Inr (render v))\<rparr>"

definition patched_pod_yaml :: bytes where
  "patched_pod_yaml =
     ''apiVersion: v1\<newline>kind: Pod\<newline>metadata:\<newline>  name: test-pod\<newline>spec:\<newline>  containers:\<newline>  - image: nginx\<newline>    name: test-container\<newline>    resources:\<newline>      limits:\<newline>        cpu: 200m\<newline>        memory: 256Mi\<newline>      requests:\<newline>        cpu: 100m\<newline>        memory: 128Mi\<newline>''"

section \<open>Decoding a document into typeMeta\<close>

text \<open>
  \<^verbatim>\<open>yaml.Unmarshal(data, &tm)\<close> works in two steps: the library converts the YAML
  document to JSON, and \<^verbatim>\<open>encoding/json\<close> decodes the JSON value into the struct.
  A document can pass the first step, so it parses, and fail the second. To speak about
  documents that parse, the second step is written out for the struct
  \<^verbatim>\<open>typeMeta\<close>, whose one field \<^verbatim>\<open>Kind\<close> is a string with no json tag:
  \<^item> \<^verbatim>\<open>null\<close> (an empty document) leaves the struct at its zero value;
  \<^item> of an object, each member whose name selects the field is decoded in order: a
    string is stored, \<^verbatim>\<open>null\<close> changes nothing, any other value is a type error;
    members with other names are skipped;
  \<^item> any other JSON value is a type error.
  A member name selects the field when it equals \<^verbatim>\<open>Kind\<close> after folding: ASCII
  letters are upper-cased, and the Kelvin sign (UTF-8 E2 84 AA), the one other character
  that folds to K, counts as K. So \<^verbatim>\<open>kind\<close>, \<^verbatim>\<open>Kind\<close> and \<^verbatim>\<open>KIND\<close> all
  select it.

  The conversion to JSON stays a parameter, as does the text of the decoder's error.
  \<open>Unmarshal_by\<close> puts the two steps together, with the prefixes that the library adds
  to the error of each step.
\<close>

datatype json =
    JNull
  | JBool bool
  | JNumber string
  | JString string
  | JArray "json list"
  | JObject "(string \<times> json) list"

definition toUpper :: "char \<Rightarrow> char" where
  "toUpper c =
     (case map_of (zip ''abcdefghijklmnopqrstuvwxyz'' ''ABCDEFGHIJKLMNOPQRSTUVWXYZ'') c of
        None \<Rightarrow> c
      | Some u \<Rightarrow> u)"

fun foldName :: "string \<Rightarrow> string" where
  "foldName (a # b # c # cs) =
     (if a = CHR 0xE2 \<and> b = CHR 0x84 \<and> c = CHR 0xAA then CHR ''K'' # foldName cs
      else toUpper a # foldName (b # c # cs))"
| "foldName (a # cs) = toUpper a # foldName cs"
| "foldName [] = []"

definition selects_Kind :: "string \<Rightarrow> bool" where
  "selects_Kind name = (foldName name = ''KIND'')"

text \<open>
  The state of the member loop is the field and whether a type error was recorded; the
  decoder goes on after a type error and reports it at the end.
\<close>

fun decode_members :: "(string \<times> json) list \<Rightarrow> string \<times> bool \<Rightarrow> string \<times> bool" where
  "decode_members [] st = st"
| "decode_members ((name, v) # members) (kind, failed) =
     (if selects_Kind name
      then (case v of
              JString s \<Rightarrow> decode_members members (s, failed)
            | JNull \<Rightarrow> decode_members members (kind, failed)
            | _ \<Rightarrow> decode_members members (kind, True))
      else decode_members members (kind, failed))"

definition decode_typeMeta :: "json \<Rightarrow> typeMeta option" where
  "decode_typeMeta j =
     (case j of
        JNull \<Rightarrow> Some \<lparr>Kind = []\<rparr>
      | JObject members \<Rightarrow>
          (case decode_members members ([], False) of
             (kind, False) \<Rightarrow> Some \<lparr>Kind = kind\<rparr>
           | (kind, True) \<Rightarrow> None)
      | _ \<Rightarrow> None)"

definition Unmarshal_by ::
    "(bytes \<Rightarrow> lib_error + json) \<Rightarrow> (json \<Rightarrow> lib_error) \<Rightarrow> bytes \<Rightarrow> lib_error + typeMeta" where
  "Unmarshal_by yamlToJSON type_error data =
     (case yamlToJSON data of
        Inl err \<Rightarrow> Inl (''error converting YAML to JSON: '' @ err)
      | Inr j \<Rightarrow>
          (case decode_typeMeta j of
             None \<Rightarrow> Inl (''error unmarshaling JSON: '' @ type_error j)
           | Some tm \<Rightarrow> Inr tm))"

text \<open>
  A document has no kind field when it is empty or a mapping none of whose keys selects
  the field.
\<close>

fun lacks_kind :: "json \<Rightarrow> bool" where
  "lacks_kind JNull = True"
| "lacks_kind (JObject members) = list_all (\<lambda>m. \<not> selects_Kind (fst m)) members"
| "lacks_kind _ = False"

text \<open>
  The stand-in library with the two steps: documents that parse and are not manifests
  with a field spelled \<^verbatim>\<open>kind\<close>. The keys of an object are in the order in which
  the conversion emits them.
\<close>

definition sequence_yaml :: bytes where
  "sequence_yaml = ''- a\<newline>- b\<newline>''"

definition list_kind_yaml :: bytes where
  "list_kind_yaml = ''apiVersion: v1\<newline>kind:\<newline>- Deployment\<newline>''"

definition capital_kind_yaml :: bytes where
  "capital_kind_yaml =
     ''apiVersion: v1\<newline>Kind: Pod\<newline>metadata:\<newline>  name: test-pod\<newline>spec:\<newline>  containers:\<newline>  - name: test-container\<newline>    image: nginx\<newline>''"

definition fixture_yamlToJSON :: "bytes \<Rightarrow> lib_error + json" where
  "fixture_yamlToJSON = fixture_lookup
     [(sequence_yaml, JArray [JString ''a'', JString ''b'']),
      (list_kind_yaml,
         JObject [(''apiVersion'', JString ''v1''), (''kind'', JArray [JString ''Deployment''])]),
      (capital_kind_yaml,
         JObject [(''Kind'', JString ''Pod''), (''apiVersion'', JString ''v1''),
                  (''metadata'', JObject [(''name'', JString ''test-pod'')]),
                  (''spec'', JObject [(''containers'',
                     JArray [JObject [(''image'', JString ''nginx''),
                                      (''name'', JString ''test-container'')]])])]),
      (no_kind_yaml,
         JObject [(''apiVersion'', JString ''v1''),
                  (''metadata'', JObject [(''name'', JString ''test-service'')])]),
      (service_yaml,
         JObject [(''apiVersion'', JString ''v1''), (''kind'', JString ''Service''),
                  (''metadata'', JObject [(''name'', JString ''test-service'')])])]"

definition fixture_type_error :: "json \<Rightarrow> lib_error" where
  "fixture_type_error j =
     (case j of
        JObject members \<Rightarrow>
          ''while decoding JSON: json: cannot unmarshal array into Go struct field typeMeta.Kind of type string''
      | _ \<Rightarrow> ''while decoding JSON: json: cannot unmarshal array into Go value of type k8s.typeMeta'')"

definition yaml_fixture_json :: "unit yaml" where
  "yaml_fixture_json =
     yaml_fixture
       \<lparr>Unmarshal_typeMeta := Unmarshal_by fixture_yamlToJSON fixture_type_error,
        Unmarshal_Pod := fixture_lookup [(pod_yaml, test_pod), (capital_kind_yaml, test_pod)]\<rparr>"

section \<open>The container list inside a value\<close>

text \<open>
  \<open>map_object f\<close> applies \<open>f\<close> to the container list of a value and leaves every
  other component as it is. The lemmas relate it to the selectors.
\<close>

lemma Workload_Containers_map:
  "Containers (PodTemplate_Spec (Template (Spec (map_Workload f w))))
     = f (Containers (PodTemplate_Spec (Template (Spec w))))"
  by (simp add: Workload.map_sel WorkloadSpec.map_sel PodTemplateSpec.map_sel PodSpec.map_sel)

lemma Pod_Containers_map:
  "Containers (Pod_Spec (map_Pod f p)) = f (Containers (Pod_Spec p))"
  by (simp add: Pod.map_sel PodSpec.map_sel)

lemma object_Containers_map: "object_Containers (map_object f v) = f (object_Containers v)"
  by (cases v) (simp_all add: Workload_Containers_map Pod_Containers_map)

lemma object_TypeMeta_map: "object_TypeMeta (map_object f v) = object_TypeMeta v"
  by (cases v) (simp_all add: Workload.map_sel Pod.map_sel)

lemma object_ObjectMeta_map: "object_ObjectMeta (map_object f v) = object_ObjectMeta v"
  by (cases v) (simp_all add: Workload.map_sel Pod.map_sel)

lemma without_Containers_map: "without_Containers (map_object f v) = without_Containers v"
  by (simp add: without_Containers_def object.map_comp comp_def)

lemma map_object_const: "map_object f (map_object (\<lambda>_. s) v) = map_object (\<lambda>_. f s) v"
  by (simp add: object.map_comp comp_def)

lemma map_Workload_Containers:
  "map_Workload (\<lambda>_. f (Containers (PodTemplate_Spec (Template (Spec w))))) w = map_Workload f w"
  by (cases w; rename_tac tm om sp st; case_tac sp; rename_tac t ot; case_tac t;
      rename_tac m ps; case_tac ps) simp

lemma map_Pod_Containers:
  "map_Pod (\<lambda>_. f (Containers (Pod_Spec p))) p = map_Pod f p"
  by (cases p; rename_tac tm om ps st; case_tac ps) simp

lemma map_object_Containers: "map_object (\<lambda>_. f (object_Containers v)) v = map_object f v"
  by (cases v) (simp_all add: map_Workload_Containers map_Pod_Containers)

lemma patched_eq:
  "patched resCfg v
     = map_object (\<lambda>_. (object_Containers v)
         [0 := (object_Containers v ! 0)\<lparr>Resources := newResources resCfg\<rparr>]) v"
  unfolding patched_def
  by (rule map_object_Containers [symmetric])

lemma object_Containers_patched:
  "object_Containers v = c # cs \<Longrightarrow>
   object_Containers (patched resCfg v) = c\<lparr>Resources := newResources resCfg\<rparr> # cs"
  by (simp add: patched_def object_Containers_map)

lemma without_Containers_patched: "without_Containers (patched resCfg v) = without_Containers v"
  by (simp add: patched_def without_Containers_map)

lemma patched_idem: "patched resCfg (patched resCfg v) = patched resCfg v"
proof -
  let ?f = "\<lambda>cs :: 'a Container list. cs[0 := (cs ! 0)\<lparr>Resources := newResources resCfg\<rparr>]"
  have "?f (?f cs) = ?f cs" for cs
    by (cases cs) simp_all
  then have "?f \<circ> ?f = ?f" by (simp add: fun_eq_iff)
  then show ?thesis by (simp add: patched_def object.map_comp)
qed

section \<open>Patch on the store computes Patch on values\<close>

lemma Unmarshal_as_supported:
  "Unmarshal_as y kind file \<noteq> None \<longleftrightarrow> kind \<in> set supportedKinds"
  by (simp add: Unmarshal_as_def supportedKinds_def)

lemma extractorMap_supported:
  "extractorMap y kind \<noteq> None \<longleftrightarrow> kind \<in> set supportedKinds"
  by (simp add: extractorMap_def supportedKinds_def)

text \<open>
  What an extractor of the table returns on the empty store: the error of the typed
  decoder, or the object at address 0 with the slice onto its container array.
\<close>

lemma extractor_decodes:
  assumes "extractorMap y kind = Some extractor"
  shows "\<exists>r. Unmarshal_as y kind file = Some r \<and>
           extractor file heap0 =
             (case r of
                Inl err \<Rightarrow> (Inl err, heap0)
              | Inr v \<Rightarrow>
                  (Inr (Some (map_object (\<lambda>_. \<lparr>array = 0, len = length (object_Containers v)\<rparr>) v),
                        \<lparr>array = 0, len = length (object_Containers v)\<rparr>),
                   \<lparr>arrays = [0 \<mapsto> object_Containers v], free = Suc 0\<rparr>))"
  using assms
  by (auto simp: extractorMap_def Unmarshal_as_def newExtractor_def unmarshalK8sResource_def
        new_Workload_def new_Pod_def alloc_def heap0_def Workload_Containers_map Pod_Containers_map
      split: if_splits sum.splits)

text \<open>
  The write through the slice is seen by the serialiser: the call with the store returns
  what the description on values returns.
\<close>

lemma Patch_refines: "Patch y file resCfg = Patch_on_values y file resCfg"
proof (cases "Unmarshal_typeMeta y file")
  case (Inl err)
  then show ?thesis by (simp add: Patch_def Patch_on_values_def getKind_def)
next
  case tm: (Inr tm)
  show ?thesis
  proof (cases "extractorMap y (Kind tm)")
    case None
    then have "Unmarshal_as y (Kind tm) file = None"
      using extractorMap_supported [of y "Kind tm"] Unmarshal_as_supported [of y "Kind tm" "file"]
      by simp
    with None tm show ?thesis by (simp add: Patch_def Patch_on_values_def getKind_def)
  next
    case (Some extractor)
    from extractor_decodes [OF Some, of "file"] obtain r where
      r: "Unmarshal_as y (Kind tm) file = Some r"
      and ex: "extractor file heap0 =
             (case r of
                Inl err \<Rightarrow> (Inl err, heap0)
              | Inr v \<Rightarrow>
                  (Inr (Some (map_object (\<lambda>_. \<lparr>array = 0, len = length (object_Containers v)\<rparr>) v),
                        \<lparr>array = 0, len = length (object_Containers v)\<rparr>),
                   \<lparr>arrays = [0 \<mapsto> object_Containers v], free = Suc 0\<rparr>))"
      by blast
    show ?thesis
    proof (cases r)
      case (Inl err)
      with tm Some r ex show ?thesis by (simp add: Patch_def Patch_on_values_def getKind_def)
    next
      case v: (Inr v)
      show ?thesis
      proof (cases "object_Containers v")
        case Nil
        with v tm Some r ex show ?thesis
          by (simp add: Patch_def Patch_on_values_def getKind_def)
      next
        case (Cons c cs)
        with v tm Some r ex show ?thesis
          by (simp add: Patch_def Patch_on_values_def getKind_def store_Resources_def
                yaml_Marshal_def load_def map_object_const Let_def patched_eq)
      qed
    qed
  qed
qed

lemma Patch_patched:
  assumes "Unmarshal_typeMeta y file = Inr tm"
      and "Unmarshal_as y (Kind tm) file = Some (Inr v)"
      and "object_Containers v = c # cs"
  shows "Patch y file resCfg =
           (returned (Marshal y (Some (patched resCfg v))),
            if cs = [] then [] else [multipleContainersWarning (Kind tm)])"
  using assms by (simp add: Patch_refines Patch_on_values_def)

section \<open>The stand-in library on its documents\<close>

lemmas fixture_defs = yaml_fixture_def fixture_lookup_def deployment_yaml_def daemonset_yaml_def
  service_yaml_def invalid_yaml_def no_containers_yaml_def pod_yaml_def no_kind_yaml_def
  two_containers_yaml_def claims_yaml_def patched_yaml_def patched_two_containers_yaml_def
  patched_pod_yaml_def test_workload_def test_pod_def test_container_def sidecar_container_def
  gpu_container_def resCfg_test_def render_def render_header_def render_Container_def
  render_Resources_def render_section_def render_quantities_def newResources_def
  ResourceCPU_def ResourceMemory_def newline_def Unmarshal_as_def

lemma fixture_kinds:
  "Unmarshal_typeMeta yaml_fixture deployment_yaml = Inr \<lparr>Kind = ''Deployment''\<rparr>"
  "Unmarshal_typeMeta yaml_fixture service_yaml = Inr \<lparr>Kind = ''Service''\<rparr>"
  "Unmarshal_typeMeta yaml_fixture no_containers_yaml = Inr \<lparr>Kind = ''Deployment''\<rparr>"
  "Unmarshal_typeMeta yaml_fixture pod_yaml = Inr \<lparr>Kind = ''Pod''\<rparr>"
  "Unmarshal_typeMeta yaml_fixture no_kind_yaml = Inr \<lparr>Kind = []\<rparr>"
  "Unmarshal_typeMeta yaml_fixture two_containers_yaml = Inr \<lparr>Kind = ''Deployment''\<rparr>"
  "Unmarshal_typeMeta yaml_fixture claims_yaml = Inr \<lparr>Kind = ''Deployment''\<rparr>"
  "Unmarshal_typeMeta yaml_fixture patched_yaml = Inr \<lparr>Kind = ''Deployment''\<rparr>"
  by (simp_all add: fixture_defs)

lemma fixture_invalid:
  "Unmarshal_typeMeta yaml_fixture invalid_yaml
     = Inl ''error converting YAML to JSON: yaml: line 1: flow sequence is not closed''"
  by (simp add: yaml_fixture_def)

lemma fixture_values:
  "Unmarshal_as yaml_fixture ''Deployment'' deployment_yaml
     = Some (Inr (DeploymentObj (test_workload ''Deployment'' ''test-deployment'' [test_container])))"
  "Unmarshal_as yaml_fixture ''Deployment'' no_containers_yaml
     = Some (Inr (DeploymentObj (test_workload ''Deployment'' ''test-deployment'' [])))"
  "Unmarshal_as yaml_fixture ''Deployment'' two_containers_yaml
     = Some (Inr (DeploymentObj
         (test_workload ''Deployment'' ''test-deployment'' [test_container, sidecar_container])))"
  "Unmarshal_as yaml_fixture ''Deployment'' claims_yaml
     = Some (Inr (DeploymentObj (test_workload ''Deployment'' ''test-deployment'' [gpu_container])))"
  "Unmarshal_as yaml_fixture ''Pod'' pod_yaml = Some (Inr (PodObj test_pod))"
  by (simp_all add: yaml_fixture_def fixture_lookup_def deployment_yaml_def no_containers_yaml_def
      pod_yaml_def two_containers_yaml_def claims_yaml_def patched_yaml_def Unmarshal_as_def)

lemma fixture_reads_back:
  "Unmarshal_as yaml_fixture ''Deployment'' patched_yaml
     = Some (Inr (patched resCfg_test
         (DeploymentObj (test_workload ''Deployment'' ''test-deployment'' [test_container]))))"
  by (simp add: yaml_fixture_def fixture_lookup_def deployment_yaml_def no_containers_yaml_def
      pod_yaml_def two_containers_yaml_def claims_yaml_def patched_yaml_def Unmarshal_as_def
      patched_def test_workload_def)

lemma fixture_Containers:
  "object_Containers (DeploymentObj (test_workload kind name cs)) = cs"
  "object_Containers (PodObj test_pod) = [test_container]"
  by (simp_all add: test_workload_def test_pod_def)

lemma fixture_Marshal:
  "Marshal yaml_fixture (Some (patched resCfg_test
     (DeploymentObj (test_workload ''Deployment'' ''test-deployment'' [test_container]))))
     = Inr patched_yaml"
  "Marshal yaml_fixture (Some (patched resCfg_test
     (DeploymentObj (test_workload ''Deployment'' ''test-deployment'' [gpu_container]))))
     = Inr patched_yaml"
  "Marshal yaml_fixture (Some (patched resCfg_test
     (DeploymentObj (test_workload ''Deployment'' ''test-deployment''
        [test_container, sidecar_container]))))
     = Inr patched_two_containers_yaml"
  "Marshal yaml_fixture (Some (patched resCfg_test (PodObj test_pod))) = Inr patched_pod_yaml"
  by (simp_all add: fixture_defs patched_def)

lemma Patch_fixture:
  "Patch yaml_fixture deployment_yaml resCfg_test = (Return (Some patched_yaml) None, [])"
  "Patch yaml_fixture claims_yaml resCfg_test = (Return (Some patched_yaml) None, [])"
  "Patch yaml_fixture two_containers_yaml resCfg_test
     = (Return (Some patched_two_containers_yaml) None, [multipleContainersWarning ''Deployment''])"
  "Patch yaml_fixture patched_yaml resCfg_test = (Return (Some patched_yaml) None, [])"
  "Patch yaml_fixture pod_yaml resCfg_test = (Return (Some patched_pod_yaml) None, [])"
  using
    Patch_patched [of yaml_fixture deployment_yaml "\<lparr>Kind = ''Deployment''\<rparr>" _
      test_container "[]" resCfg_test]
    Patch_patched [of yaml_fixture claims_yaml "\<lparr>Kind = ''Deployment''\<rparr>" _
      gpu_container "[]" resCfg_test]
    Patch_patched [of yaml_fixture two_containers_yaml "\<lparr>Kind = ''Deployment''\<rparr>" _
      test_container "[sidecar_container]" resCfg_test]
    Patch_patched [of yaml_fixture patched_yaml "\<lparr>Kind = ''Deployment''\<rparr>" _
      "test_container\<lparr>Resources := newResources resCfg_test\<rparr>" "[]" resCfg_test]
    Patch_patched [of yaml_fixture pod_yaml "\<lparr>Kind = ''Pod''\<rparr>" _
      test_container "[]" resCfg_test]
  by (simp_all add: fixture_kinds fixture_values fixture_reads_back fixture_Containers
        fixture_Marshal returned_def patched_idem object_Containers_patched
      del: object_Containers.simps)

lemma decode_members_lacks:
  "list_all (\<lambda>m. \<not> selects_Kind (fst m)) members \<Longrightarrow> decode_members members st = st"
  by (induction members st rule: decode_members.induct) auto

lemma decode_typeMeta_lacks: "lacks_kind j \<Longrightarrow> decode_typeMeta j = Some \<lparr>Kind = []\<rparr>"
  by (cases j) (simp_all add: decode_typeMeta_def decode_members_lacks)

lemmas fixture_json_defs = yaml_fixture_json_def yaml_fixture_def Unmarshal_by_def
  fixture_yamlToJSON_def fixture_lookup_def fixture_type_error_def decode_typeMeta_def
  selects_Kind_def toUpper_def sequence_yaml_def list_kind_yaml_def capital_kind_yaml_def
  no_kind_yaml_def service_yaml_def pod_yaml_def

lemma fixture_json_kinds:
  "Unmarshal_typeMeta yaml_fixture_json sequence_yaml
     = Inl ''error unmarshaling JSON: while decoding JSON: json: cannot unmarshal array into Go value of type k8s.typeMeta''"
  "Unmarshal_typeMeta yaml_fixture_json list_kind_yaml
     = Inl ''error unmarshaling JSON: while decoding JSON: json: cannot unmarshal array into Go struct field typeMeta.Kind of type string''"
  "Unmarshal_typeMeta yaml_fixture_json capital_kind_yaml = Inr \<lparr>Kind = ''Pod''\<rparr>"
  "Unmarshal_typeMeta yaml_fixture_json no_kind_yaml = Inr \<lparr>Kind = []\<rparr>"
  by (simp_all add: fixture_json_defs)

lemma fixture_json_parses:
  "fixture_yamlToJSON sequence_yaml = Inr (JArray [JString ''a'', JString ''b''])"
  "fixture_yamlToJSON list_kind_yaml
     = Inr (JObject [(''apiVersion'', JString ''v1''), (''kind'', JArray [JString ''Deployment''])])"
  "fixture_yamlToJSON no_kind_yaml
     = Inr (JObject [(''apiVersion'', JString ''v1''),
                     (''metadata'', JObject [(''name'', JString ''test-service'')])])"
  by (simp_all add: fixture_yamlToJSON_def fixture_lookup_def sequence_yaml_def list_kind_yaml_def
        capital_kind_yaml_def no_kind_yaml_def)

lemma fixture_json_capital:
  "\<exists>members. fixture_yamlToJSON capital_kind_yaml = Inr (JObject members)
     \<and> map_of members ''kind'' = None \<and> map_of members ''Kind'' = Some (JString ''Pod'')"
  by (simp add: fixture_yamlToJSON_def fixture_lookup_def sequence_yaml_def list_kind_yaml_def
        capital_kind_yaml_def)

lemma Patch_fixture_json_capital:
  "Patch yaml_fixture_json capital_kind_yaml resCfg_test = (Return (Some patched_pod_yaml) None, [])"
proof -
  have v: "Unmarshal_as yaml_fixture_json (Kind \<lparr>Kind = ''Pod''\<rparr>) capital_kind_yaml
             = Some (Inr (PodObj test_pod))"
    by (simp add: Unmarshal_as_def yaml_fixture_json_def fixture_lookup_def pod_yaml_def
          capital_kind_yaml_def)
  have m: "Marshal yaml_fixture_json (Some (patched resCfg_test (PodObj test_pod)))
             = Inr patched_pod_yaml"
    using fixture_Marshal(4) by (simp add: yaml_fixture_json_def)
  from Patch_patched [OF fixture_json_kinds(3) v fixture_Containers(2), of resCfg_test] m
  show ?thesis by (simp add: returned_def)
qed

section \<open>The patcher\<close>

text \<open>
  In the statements below a manifest is a byte sequence \<open>file\<close> together with what the
  library decodes from it: \<open>Unmarshal_typeMeta y file = Inr tm\<close> says that the document
  parses and carries the kind \<open>Kind tm\<close> (the empty string when it has no kind field,
  the zero value of the Go field), and \<open>Unmarshal_as y (Kind tm) file = Some (Inr v)\<close>
  says that the kind is one of the five and that the document decodes to the value
  \<open>v\<close> at the Go type of that kind. "The returned bytes hold the value \<open>v'\<close>" is
  \<open>Marshal y (Some v') = Inr out\<close>.
\<close>

text \<open>
  \<open>Patch\<close> in internal/k8s/k8s.go, on a manifest of any of the five kinds with exactly
  one container: when the library serialises the patched value, the call returns these
  bytes and prints nothing; the value they hold has one container, whose requests and
  limits for cpu and memory are the supplied quantities and whose name and image are the
  input's; apiVersion and metadata.name are the input's.
\<close>

lemma Patch_minimal_manifest:
  assumes "Unmarshal_typeMeta y file = Inr tm"
      and "Unmarshal_as y (Kind tm) file = Some (Inr v)"
      and "object_Containers v = [c]"
      and "Marshal y (Some (patched resCfg v)) = Inr out"
  shows "Kind tm \<in> set supportedKinds
       \<and> Patch y file resCfg = (Return (Some out) None, [])
       \<and> (\<exists>c'. object_Containers (patched resCfg v) = [c']
             \<and> Requests (Resources c') ResourceCPU = Some (CPURequest resCfg)
             \<and> Requests (Resources c') ResourceMemory = Some (MemRequest resCfg)
             \<and> Limits (Resources c') ResourceCPU = Some (CPULimit resCfg)
             \<and> Limits (Resources c') ResourceMemory = Some (MemLimit resCfg)
             \<and> Name c' = Name c \<and> Image c' = Image c)
       \<and> APIVersion (object_TypeMeta (patched resCfg v)) = APIVersion (object_TypeMeta v)
       \<and> ObjectMeta_Name (object_ObjectMeta (patched resCfg v))
           = ObjectMeta_Name (object_ObjectMeta v)"
proof -
  have 0: "Kind tm \<in> set supportedKinds"
    using assms(2) Unmarshal_as_supported [of y "Kind tm" "file"] by simp
  have 1: "Patch y file resCfg = (Return (Some out) None, [])"
    using Patch_patched [OF assms(1,2,3), of resCfg] assms(4) by (simp add: returned_def)
  let ?c' = "c\<lparr>Resources := newResources resCfg\<rparr>"
  have 2: "object_Containers (patched resCfg v) = [?c']"
    by (rule object_Containers_patched [OF assms(3)])
  have 3: "Requests (Resources ?c') ResourceCPU = Some (CPURequest resCfg)"
    "Requests (Resources ?c') ResourceMemory = Some (MemRequest resCfg)"
    "Limits (Resources ?c') ResourceCPU = Some (CPULimit resCfg)"
    "Limits (Resources ?c') ResourceMemory = Some (MemLimit resCfg)"
    "Name ?c' = Name c" "Image ?c' = Image c"
    by (simp_all add: newResources_def ResourceCPU_def ResourceMemory_def)
  have 4: "APIVersion (object_TypeMeta (patched resCfg v)) = APIVersion (object_TypeMeta v)"
    "ObjectMeta_Name (object_ObjectMeta (patched resCfg v)) = ObjectMeta_Name (object_ObjectMeta v)"
    by (simp_all add: patched_def object_TypeMeta_map object_ObjectMeta_map)
  from 0 1 2 3 4 show ?thesis by blast
qed

text \<open>
  The copy of the patcher in package main does not do the same for a Pod. Its case
  \<^verbatim>\<open>"Pod"\<close> leaves \<^verbatim>\<open>manifest\<close> nil, so whatever the Pod and the quantities
  are, the call returns the serialisation of nil.
\<close>

lemma updateResource_Pod:
  assumes "Unmarshal_typeMeta y file = Inr tm"
      and "Kind tm = ''Pod''"
      and "Unmarshal_Pod y file = Inr p"
      and "Containers (Pod_Spec p) = c # cs"
  shows "fst (updateResource y file resCfg) = returned (Marshal y None)"
  using assms
  by (simp add: updateResource_def getK8SKind_def unmarshalK8sResource_def new_Pod_def alloc_def
        heap0_def Pod_Containers_map store_Resources_def returned_def split: sum.splits)

text \<open>
  C1. For each of the five kinds, patching a minimal manifest with one container succeeds
  and returns bytes in which that container's requests and limits for cpu and memory are
  the supplied quantities, and apiVersion, metadata.name and the container's name and
  image are the input's. \<open>Patch\<close> does this (\<open>Patch_minimal_manifest\<close>);
  \<open>updateResource\<close> does not for the kind Pod. Evaluated on the Pod manifest of the
  fixture: \<open>updateResource\<close> returns the four bytes \<^verbatim>\<open>null\<close> and a newline with a
  nil error, where \<open>Patch\<close> returns the patched Pod.
\<close>

theorem updateResource_Pod_returns_null:
  "updateResource yaml_fixture pod_yaml resCfg_test = (Return (Some ''null\<newline>'') None, [])
   \<and> Patch yaml_fixture pod_yaml resCfg_test = (Return (Some patched_pod_yaml) None, [])"
proof -
  have "Unmarshal_Pod yaml_fixture pod_yaml = Inr test_pod"
    by (simp add: yaml_fixture_def fixture_lookup_def)
  then have "updateResource yaml_fixture pod_yaml resCfg_test
               = (Return (Some ''null\<newline>'') None, [])"
    by (simp add: updateResource_def getK8SKind_def fixture_kinds unmarshalK8sResource_def
          new_Pod_def alloc_def heap0_def Pod_Containers_map store_Resources_def test_pod_def)
       (simp add: yaml_fixture_def newline_def)
  then show ?thesis by (simp add: Patch_fixture)
qed

text \<open>
  C2. For every input and every ResourceConfig, a call of \<open>Patch\<close> either succeeds, and
  then the returned bytes hold the decoded value with the resource requirements of
  container 0 replaced by the supplied set (requests cpu and memory, limits cpu and
  memory, the supplied quantities and nothing else) and everything outside the container
  list, and every container after the first, unchanged; or it returns an error together
  with nil bytes. There is no third outcome: no bytes together with an error, and no
  panic.
\<close>

theorem Patch_all_or_nothing:
  "(\<exists>tm v c cs out.
       Unmarshal_typeMeta y file = Inr tm
     \<and> Unmarshal_as y (Kind tm) file = Some (Inr v)
     \<and> object_Containers v = c # cs
     \<and> object_Containers (patched resCfg v) = c\<lparr>Resources := newResources resCfg\<rparr> # cs
     \<and> Requests (newResources resCfg)
         = [''cpu'' \<mapsto> CPURequest resCfg, ''memory'' \<mapsto> MemRequest resCfg]
     \<and> Limits (newResources resCfg)
         = [''cpu'' \<mapsto> CPULimit resCfg, ''memory'' \<mapsto> MemLimit resCfg]
     \<and> Claims (newResources resCfg) = []
     \<and> without_Containers (patched resCfg v) = without_Containers v
     \<and> Marshal y (Some (patched resCfg v)) = Inr out
     \<and> fst (Patch y file resCfg) = Return (Some out) None)
   \<or> (\<exists>err. fst (Patch y file resCfg) = Return None (Some err))"
proof (cases "Unmarshal_typeMeta y file")
  case (Inl err)
  then show ?thesis by (simp add: Patch_refines Patch_on_values_def)
next
  case tm: (Inr tm)
  show ?thesis
  proof (cases "Unmarshal_as y (Kind tm) file")
    case None
    with tm show ?thesis by (simp add: Patch_refines Patch_on_values_def)
  next
    case (Some r)
    show ?thesis
    proof (cases r)
      case (Inl err)
      with tm Some show ?thesis by (simp add: Patch_refines Patch_on_values_def)
    next
      case v: (Inr v)
      show ?thesis
      proof (cases "object_Containers v")
        case Nil
        with tm Some v show ?thesis by (simp add: Patch_refines Patch_on_values_def)
      next
        case (Cons c cs)
        have P: "fst (Patch y file resCfg) = returned (Marshal y (Some (patched resCfg v)))"
          using Patch_patched [of y "file" tm v c cs resCfg] tm Some v Cons by simp
        have R: "Requests (newResources resCfg)
                   = [''cpu'' \<mapsto> CPURequest resCfg, ''memory'' \<mapsto> MemRequest resCfg]"
          "Limits (newResources resCfg)
                   = [''cpu'' \<mapsto> CPULimit resCfg, ''memory'' \<mapsto> MemLimit resCfg]"
          "Claims (newResources resCfg) = []"
          by (simp_all add: newResources_def ResourceCPU_def ResourceMemory_def)
        show ?thesis
        proof (cases "Marshal y (Some (patched resCfg v))")
          case (Inl err)
          with P show ?thesis by (simp add: returned_def)
        next
          case (Inr out)
          with P have "fst (Patch y file resCfg) = Return (Some out) None"
            by (simp add: returned_def)
          with tm Some v Cons Inr R object_Containers_patched [OF Cons, of resCfg]
            without_Containers_patched [of resCfg v]
          show ?thesis by blast
        qed
      qed
    qed
  qed
qed

theorem Patch_all_or_nothing_witness:
  "fst (Patch yaml_fixture deployment_yaml resCfg_test) = Return (Some patched_yaml) None
   \<and> fst (Patch yaml_fixture no_containers_yaml resCfg_test)
       = Return None (Some (NoContainers ''Deployment''))"
proof -
  have 1: "fst (Patch yaml_fixture deployment_yaml resCfg_test) = Return (Some patched_yaml) None"
    by (simp add: Patch_fixture)
  have 2: "fst (Patch yaml_fixture no_containers_yaml resCfg_test)
             = Return None (Some (NoContainers ''Deployment''))"
    by (simp add: Patch_refines Patch_on_values_def fixture_kinds fixture_values test_workload_def)
  from Patch_all_or_nothing [of yaml_fixture deployment_yaml resCfg_test] 1 2
  show ?thesis by blast
qed

text \<open>
  C3. On a manifest of a supported kind with two containers, \<open>Patch\<close> succeeds when the
  library serialises the patched value: the returned bytes hold the value in which
  container 0 has the supplied resource requirements (requests cpu and memory, limits
  cpu and memory, the supplied quantities) and container 1 is the input's container 1,
  its resources included, and the call prints the warning and goes on.
\<close>

theorem Patch_two_containers:
  assumes "Unmarshal_typeMeta y file = Inr tm"
      and "Unmarshal_as y (Kind tm) file = Some (Inr v)"
      and "object_Containers v = [c0, c1]"
      and "Marshal y (Some (patched resCfg v)) = Inr out"
  shows "Patch y file resCfg = (Return (Some out) None, [multipleContainersWarning (Kind tm)])
       \<and> object_Containers (patched resCfg v) = [c0\<lparr>Resources := newResources resCfg\<rparr>, c1]
       \<and> Resources (object_Containers (patched resCfg v) ! 0) = newResources resCfg
       \<and> Requests (Resources (object_Containers (patched resCfg v) ! 0))
           = [''cpu'' \<mapsto> CPURequest resCfg, ''memory'' \<mapsto> MemRequest resCfg]
       \<and> Limits (Resources (object_Containers (patched resCfg v) ! 0))
           = [''cpu'' \<mapsto> CPULimit resCfg, ''memory'' \<mapsto> MemLimit resCfg]
       \<and> Claims (Resources (object_Containers (patched resCfg v) ! 0)) = []
       \<and> Resources (object_Containers (patched resCfg v) ! 1) = Resources c1
       \<and> without_Containers (patched resCfg v) = without_Containers v"
proof -
  have R: "Requests (newResources resCfg)
             = [''cpu'' \<mapsto> CPURequest resCfg, ''memory'' \<mapsto> MemRequest resCfg]"
    "Limits (newResources resCfg)
             = [''cpu'' \<mapsto> CPULimit resCfg, ''memory'' \<mapsto> MemLimit resCfg]"
    "Claims (newResources resCfg) = []"
    by (simp_all add: newResources_def ResourceCPU_def ResourceMemory_def)
  from Patch_patched [OF assms(1,2,3), of resCfg] assms(4)
    object_Containers_patched [OF assms(3), of resCfg] without_Containers_patched [of resCfg v] R
  show ?thesis by (simp add: returned_def)
qed

theorem Patch_two_containers_witness:
  "Patch yaml_fixture two_containers_yaml resCfg_test
     = (Return (Some patched_two_containers_yaml) None,
        [''Warning: Multiple containers found in Deployment, updating only the first one\<newline>''])
   \<and> Requests (Resources (object_Containers (patched resCfg_test (DeploymentObj
         (test_workload ''Deployment'' ''test-deployment'' [test_container, sidecar_container]))) ! 0))
       = [''cpu'' \<mapsto> ''100m'', ''memory'' \<mapsto> ''128Mi'']
   \<and> Limits (Resources (object_Containers (patched resCfg_test (DeploymentObj
         (test_workload ''Deployment'' ''test-deployment'' [test_container, sidecar_container]))) ! 0))
       = [''cpu'' \<mapsto> ''200m'', ''memory'' \<mapsto> ''256Mi'']
   \<and> Resources (object_Containers (patched resCfg_test (DeploymentObj
         (test_workload ''Deployment'' ''test-deployment'' [test_container, sidecar_container]))) ! 1)
       = Resources sidecar_container"
proof -
  have k: "Unmarshal_typeMeta yaml_fixture two_containers_yaml = Inr \<lparr>Kind = ''Deployment''\<rparr>"
    by (rule fixture_kinds)
  have v: "Unmarshal_as yaml_fixture (Kind \<lparr>Kind = ''Deployment''\<rparr>) two_containers_yaml
     = Some (Inr (DeploymentObj
         (test_workload ''Deployment'' ''test-deployment'' [test_container, sidecar_container])))"
    by (simp add: fixture_values)
  have c: "object_Containers (DeploymentObj
         (test_workload ''Deployment'' ''test-deployment'' [test_container, sidecar_container]))
      = [test_container, sidecar_container]"
    by (rule fixture_Containers)
  have m: "Marshal yaml_fixture (Some (patched resCfg_test (DeploymentObj
         (test_workload ''Deployment'' ''test-deployment'' [test_container, sidecar_container]))))
     = Inr patched_two_containers_yaml"
    by (rule fixture_Marshal)
  have q: "CPURequest resCfg_test = ''100m''" "MemRequest resCfg_test = ''128Mi''"
    "CPULimit resCfg_test = ''200m''" "MemLimit resCfg_test = ''256Mi''"
    by (simp_all add: resCfg_test_def)
  have w: "multipleContainersWarning (Kind \<lparr>Kind = ''Deployment''\<rparr>)
      = ''Warning: Multiple containers found in Deployment, updating only the first one\<newline>''"
    by (simp add: multipleContainersWarning_def newline_def)
  from Patch_two_containers [OF k v c m] show ?thesis
    unfolding q w by blast
qed

text \<open>
  C4, as amended. On a manifest of a supported kind whose container 0 already has
  resource requirements, \<open>Patch\<close> assigns a new ResourceRequirements to container 0: the
  requests map and the limits map of the result are exactly cpu and memory with the
  supplied quantities, so no earlier key survives; the third field of the struct, the
  claims, is empty afterwards; and every field of container 0 outside its resources keeps
  its input value.
\<close>

theorem Patch_overwrites_Resources:
  assumes "Unmarshal_typeMeta y file = Inr tm"
      and "Unmarshal_as y (Kind tm) file = Some (Inr v)"
      and "object_Containers v = c # cs"
      and "Marshal y (Some (patched resCfg v)) = Inr out"
  shows "fst (Patch y file resCfg) = Return (Some out) None
       \<and> (\<exists>c'. object_Containers (patched resCfg v) = c' # cs
             \<and> Requests (Resources c')
                 = [ResourceCPU \<mapsto> CPURequest resCfg, ResourceMemory \<mapsto> MemRequest resCfg]
             \<and> Limits (Resources c')
                 = [ResourceCPU \<mapsto> CPULimit resCfg, ResourceMemory \<mapsto> MemLimit resCfg]
             \<and> dom (Requests (Resources c')) = {ResourceCPU, ResourceMemory}
             \<and> dom (Limits (Resources c')) = {ResourceCPU, ResourceMemory}
             \<and> Claims (Resources c') = []
             \<and> Name c' = Name c \<and> Image c' = Image c \<and> ContainerOther c' = ContainerOther c)"
proof -
  have 1: "fst (Patch y file resCfg) = Return (Some out) None"
    using Patch_patched [OF assms(1,2,3), of resCfg] assms(4) by (simp add: returned_def)
  let ?c' = "c\<lparr>Resources := newResources resCfg\<rparr>"
  have 2: "object_Containers (patched resCfg v) = ?c' # cs"
    by (rule object_Containers_patched [OF assms(3)])
  have 3: "Requests (Resources ?c')
             = [ResourceCPU \<mapsto> CPURequest resCfg, ResourceMemory \<mapsto> MemRequest resCfg]"
    "Limits (Resources ?c')
             = [ResourceCPU \<mapsto> CPULimit resCfg, ResourceMemory \<mapsto> MemLimit resCfg]"
    "Claims (Resources ?c') = []"
    "Name ?c' = Name c" "Image ?c' = Image c" "ContainerOther ?c' = ContainerOther c"
    by (simp_all add: newResources_def)
  have 4: "dom (Requests (Resources ?c')) = {ResourceCPU, ResourceMemory}"
    "dom (Limits (Resources ?c')) = {ResourceCPU, ResourceMemory}"
    by (auto simp: newResources_def)
  from 1 2 3 4 show ?thesis by blast
qed

theorem Patch_overwrites_Resources_witness:
  "fst (Patch yaml_fixture claims_yaml resCfg_test) = Return (Some patched_yaml) None
   \<and> (\<exists>c'. object_Containers (patched resCfg_test
              (DeploymentObj (test_workload ''Deployment'' ''test-deployment'' [gpu_container])))
              = [c']
         \<and> Requests (Resources c') = [''cpu'' \<mapsto> ''100m'', ''memory'' \<mapsto> ''128Mi'']
         \<and> Limits (Resources c') = [''cpu'' \<mapsto> ''200m'', ''memory'' \<mapsto> ''256Mi'']
         \<and> Claims (Resources c') = []
         \<and> Name c' = ''test-container'' \<and> Image c' = ''nginx'')"
proof -
  have k: "Unmarshal_typeMeta yaml_fixture claims_yaml = Inr \<lparr>Kind = ''Deployment''\<rparr>"
    by (rule fixture_kinds)
  have v: "Unmarshal_as yaml_fixture (Kind \<lparr>Kind = ''Deployment''\<rparr>) claims_yaml
     = Some (Inr (DeploymentObj (test_workload ''Deployment'' ''test-deployment'' [gpu_container])))"
    by (simp add: fixture_values)
  have c: "object_Containers
      (DeploymentObj (test_workload ''Deployment'' ''test-deployment'' [gpu_container]))
      = [gpu_container]"
    by (rule fixture_Containers)
  have m: "Marshal yaml_fixture (Some (patched resCfg_test
     (DeploymentObj (test_workload ''Deployment'' ''test-deployment'' [gpu_container]))))
     = Inr patched_yaml"
    by (rule fixture_Marshal)
  from Patch_overwrites_Resources [OF k v c m] show ?thesis
    by (auto simp: ResourceCPU_def ResourceMemory_def resCfg_test_def gpu_container_def
          simp del: object_Containers.simps)
qed

text \<open>
  The claim as it was stated has every field of container 0 other than requests and
  limits keep its value. The container of \<open>claims_yaml\<close> has the resource claim
  \<^verbatim>\<open>gpu\<close>; the value that \<open>Patch\<close> serialises has none, and the returned document
  has no claims section.
\<close>

theorem Patch_clears_Claims_counterexample:
  "Unmarshal_as yaml_fixture ''Deployment'' claims_yaml
     = Some (Inr (DeploymentObj (test_workload ''Deployment'' ''test-deployment'' [gpu_container])))
   \<and> Claims (Resources (hd (object_Containers
        (DeploymentObj (test_workload ''Deployment'' ''test-deployment'' [gpu_container])))))
       = [\<lparr>ClaimName = ''gpu'', ClaimRequest = []\<rparr>]
   \<and> Patch yaml_fixture claims_yaml resCfg_test
       = (returned (Marshal yaml_fixture (Some (patched resCfg_test
            (DeploymentObj (test_workload ''Deployment'' ''test-deployment'' [gpu_container]))))), [])
   \<and> Claims (Resources (hd (object_Containers (patched resCfg_test
        (DeploymentObj (test_workload ''Deployment'' ''test-deployment'' [gpu_container]))))))
       = []
   \<and> Patch yaml_fixture claims_yaml resCfg_test = (Return (Some patched_yaml) None, [])"
proof -
  have c: "object_Containers
      (DeploymentObj (test_workload ''Deployment'' ''test-deployment'' [gpu_container]))
      = [gpu_container]"
    by (rule fixture_Containers)
  have "Claims (Resources (hd (object_Containers
        (DeploymentObj (test_workload ''Deployment'' ''test-deployment'' [gpu_container])))))
       = [\<lparr>ClaimName = ''gpu'', ClaimRequest = []\<rparr>]"
    by (simp only: c) (simp add: gpu_container_def)
  moreover have "Claims (Resources (hd (object_Containers (patched resCfg_test
        (DeploymentObj (test_workload ''Deployment'' ''test-deployment'' [gpu_container]))))))
       = []"
    by (simp only: object_Containers_patched [OF c]) (simp add: newResources_def)
  moreover have "Patch yaml_fixture claims_yaml resCfg_test
       = (returned (Marshal yaml_fixture (Some (patched resCfg_test
            (DeploymentObj (test_workload ''Deployment'' ''test-deployment'' [gpu_container]))))), [])"
    by (simp add: Patch_fixture fixture_Marshal returned_def)
  ultimately show ?thesis by (simp add: fixture_values Patch_fixture)
qed

text \<open>
  C5. \<open>Patch\<close> is idempotent for a fixed quantity set: when \<open>Patch\<close> succeeds on a
  manifest with the output \<open>out\<close>, and the library reads \<open>out\<close> back as the same kind
  and as the value it serialised, then \<open>Patch\<close> succeeds on \<open>out\<close> and returns \<open>out\<close>
  again, with the same printed lines.
\<close>

theorem Patch_idempotent:
  assumes "Patch y file resCfg = (Return (Some out) None, w)"
      and "Unmarshal_typeMeta y file = Inr tm"
      and "Unmarshal_as y (Kind tm) file = Some (Inr v)"
      and "Unmarshal_typeMeta y out = Inr tm"
      and "Unmarshal_as y (Kind tm) out = Some (Inr (patched resCfg v))"
  shows "Patch y out resCfg = (Return (Some out) None, w)"
proof (cases "object_Containers v")
  case Nil
  with assms(1,2,3) show ?thesis by (simp add: Patch_refines Patch_on_values_def)
next
  case (Cons c cs)
  from Patch_patched [OF assms(2,3) Cons, of resCfg] assms(1)
  have 1: "returned (Marshal y (Some (patched resCfg v))) = Return (Some out) None"
    and w: "w = (if cs = [] then [] else [multipleContainersWarning (Kind tm)])"
    by simp_all
  from Patch_patched [OF assms(4,5) object_Containers_patched [OF Cons], of resCfg]
  show ?thesis using 1 w by (simp add: patched_idem)
qed

theorem Patch_idempotent_witness:
  "Patch yaml_fixture deployment_yaml resCfg_test = (Return (Some patched_yaml) None, [])
   \<and> Patch yaml_fixture patched_yaml resCfg_test = (Return (Some patched_yaml) None, [])"
  using Patch_idempotent [of yaml_fixture deployment_yaml resCfg_test patched_yaml "[]"
      "\<lparr>Kind = ''Deployment''\<rparr>"
      "DeploymentObj (test_workload ''Deployment'' ''test-deployment'' [test_container])"]
  by (simp add: Patch_fixture fixture_kinds fixture_values fixture_reads_back)

text \<open>
  C6, as amended. On a document that the library decodes into \<^verbatim>\<open>typeMeta\<close> without
  error, and whose decoded kind, the empty string when no field was selected, is not one
  of Deployment, DaemonSet, StatefulSet, Pod and Job, \<open>Patch\<close> returns the
  unsupported-kind error, which names the kind, and nil bytes.
\<close>

theorem Patch_unsupported_kind:
  assumes "Unmarshal_typeMeta y file = Inr tm"
      and "Kind tm \<notin> set supportedKinds"
  shows "Patch y file resCfg = (Return None (Some (UnsupportedKind (Kind tm))), [])"
proof -
  from assms(2) have "Unmarshal_as y (Kind tm) file = None"
    using Unmarshal_as_supported [of y "Kind tm" "file"] by simp
  with assms(1) show ?thesis by (simp add: Patch_refines Patch_on_values_def)
qed

theorem Patch_unsupported_kind_witness:
  "Patch yaml_fixture service_yaml resCfg_test = (Return None (Some (UnsupportedKind ''Service'')), [])
   \<and> Patch yaml_fixture no_kind_yaml resCfg_test = (Return None (Some (UnsupportedKind [])), [])"
  using Patch_unsupported_kind [of yaml_fixture service_yaml "\<lparr>Kind = ''Service''\<rparr>" resCfg_test]
    Patch_unsupported_kind [of yaml_fixture no_kind_yaml "\<lparr>Kind = []\<rparr>" resCfg_test]
  by (simp add: fixture_kinds supportedKinds_def)

text \<open>
  The claim as it was stated covers every document that parses. \<open>list_kind_yaml\<close>
  parses, and its kind, a list, is not one of the five: \<open>getKind\<close> fails on it and
  \<open>Patch\<close> returns the YAML unmarshal error before it looks the kind up.
  \<open>capital_kind_yaml\<close> parses and has no field \<^verbatim>\<open>kind\<close>, its field is spelled
  \<^verbatim>\<open>Kind\<close>: \<open>Patch\<close> takes it for a Pod and patches it.
\<close>

theorem Patch_parseable_not_unsupported_counterexample:
  "fixture_yamlToJSON list_kind_yaml
     = Inr (JObject [(''apiVersion'', JString ''v1''), (''kind'', JArray [JString ''Deployment''])])
   \<and> Patch yaml_fixture_json list_kind_yaml resCfg_test
     = (Return None (Some (YAMLUnmarshalError
          ''error unmarshaling JSON: while decoding JSON: json: cannot unmarshal array into Go struct field typeMeta.Kind of type string'')),
        [])
   \<and> (\<exists>members. fixture_yamlToJSON capital_kind_yaml = Inr (JObject members)
         \<and> map_of members ''kind'' = None)
   \<and> Patch yaml_fixture_json capital_kind_yaml resCfg_test
     = (Return (Some patched_pod_yaml) None, [])"
proof -
  have "Patch yaml_fixture_json list_kind_yaml resCfg_test
     = (Return None (Some (YAMLUnmarshalError
          ''error unmarshaling JSON: while decoding JSON: json: cannot unmarshal array into Go struct field typeMeta.Kind of type string'')),
        [])"
    by (simp add: Patch_refines Patch_on_values_def fixture_json_kinds)
  moreover have "\<exists>members. fixture_yamlToJSON capital_kind_yaml = Inr (JObject members)
         \<and> map_of members ''kind'' = None"
    using fixture_json_capital by blast
  ultimately show ?thesis
    using fixture_json_parses(2) Patch_fixture_json_capital by blast
qed

text \<open>
  C7. On bytes that the library does not parse, \<open>getKind\<close> fails with the YAML unmarshal
  error that wraps the library's error, and \<open>Patch\<close> returns that error and nil bytes.
\<close>

theorem Patch_malformed_document:
  assumes "Unmarshal_typeMeta y file = Inl err"
  shows "getKind y file = ([], Some (YAMLUnmarshalError err))
       \<and> Patch y file resCfg = (Return None (Some (YAMLUnmarshalError err)), [])"
  using assms by (simp add: getKind_def Patch_def)

theorem Patch_malformed_document_witness:
  "getKind yaml_fixture invalid_yaml
     = ([], Some (YAMLUnmarshalError
         ''error converting YAML to JSON: yaml: line 1: flow sequence is not closed''))
   \<and> Patch yaml_fixture invalid_yaml resCfg_test
     = (Return None (Some (YAMLUnmarshalError
         ''error converting YAML to JSON: yaml: line 1: flow sequence is not closed'')), [])"
  using Patch_malformed_document [OF fixture_invalid] by simp

text \<open>
  C8. On a manifest of a supported kind whose container list is empty, \<open>Patch\<close> returns
  the no-containers error and nil bytes.
\<close>

theorem Patch_no_containers:
  assumes "Unmarshal_typeMeta y file = Inr tm"
      and "Unmarshal_as y (Kind tm) file = Some (Inr v)"
      and "object_Containers v = []"
  shows "Patch y file resCfg = (Return None (Some (NoContainers (Kind tm))), [])"
  using assms by (simp add: Patch_refines Patch_on_values_def)

theorem Patch_no_containers_witness:
  "Patch yaml_fixture no_containers_yaml resCfg_test
     = (Return None (Some (NoContainers ''Deployment'')), [])"
  using Patch_no_containers [of yaml_fixture no_containers_yaml "\<lparr>Kind = ''Deployment''\<rparr>"
      "DeploymentObj (test_workload ''Deployment'' ''test-deployment'' [])" resCfg_test]
  by (simp add: fixture_kinds fixture_values fixture_Containers del: object_Containers.simps)

text \<open>
  C9, as amended. For a library that decodes into \<^verbatim>\<open>typeMeta\<close> in the two steps of
  \<open>Unmarshal_by\<close>, and a document that converts to JSON and is empty or a mapping none
  of whose keys selects the field \<^verbatim>\<open>Kind\<close> (no key is \<^verbatim>\<open>kind\<close> in any
  capitalisation): \<open>getKind\<close> returns the empty string and no error, and \<open>Patch\<close>
  returns the unsupported-kind error with the empty kind name; the error is never the
  YAML unmarshal error.
\<close>

theorem getKind_absent_kind:
  assumes "Unmarshal_typeMeta y file = Unmarshal_by yamlToJSON type_error file"
      and "yamlToJSON file = Inr j"
      and "lacks_kind j"
  shows "getKind y file = ([], None)
       \<and> Patch y file resCfg = (Return None (Some (UnsupportedKind [])), [])
       \<and> (\<forall>err. fst (Patch y file resCfg) \<noteq> Return None (Some (YAMLUnmarshalError err)))"
proof -
  have tm: "Unmarshal_typeMeta y file = Inr \<lparr>Kind = []\<rparr>"
    using assms decode_typeMeta_lacks [of j] by (simp add: Unmarshal_by_def)
  have "Unmarshal_as y [] file = None"
    by (simp add: Unmarshal_as_def)
  with tm show ?thesis by (simp add: getKind_def Patch_refines Patch_on_values_def)
qed

theorem getKind_absent_kind_witness:
  "lacks_kind (JObject [(''apiVersion'', JString ''v1''),
                        (''metadata'', JObject [(''name'', JString ''test-service'')])])
   \<and> getKind yaml_fixture_json no_kind_yaml = ([], None)
   \<and> Patch yaml_fixture_json no_kind_yaml resCfg_test
       = (Return None (Some (UnsupportedKind [])), [])"
proof -
  have u: "Unmarshal_typeMeta yaml_fixture_json no_kind_yaml
             = Unmarshal_by fixture_yamlToJSON fixture_type_error no_kind_yaml"
    by (simp add: yaml_fixture_json_def)
  have l: "lacks_kind (JObject [(''apiVersion'', JString ''v1''),
                        (''metadata'', JObject [(''name'', JString ''test-service'')])])"
    by (simp add: selects_Kind_def toUpper_def)
  from getKind_absent_kind [OF u fixture_json_parses(3) l, of resCfg_test] l
  show ?thesis by simp
qed

text \<open>
  The claim as it was stated covers every document that parses and has no kind field.
  \<open>sequence_yaml\<close>, a list of two strings, parses and has no fields at all:
  \<open>getKind\<close> reports the YAML unmarshal error on it, and so does \<open>Patch\<close>.
  \<open>capital_kind_yaml\<close> has no field \<^verbatim>\<open>kind\<close>, and \<open>getKind\<close> returns
  \<^verbatim>\<open>Pod\<close> for it, not the empty string.
\<close>

theorem getKind_parse_failure_counterexample:
  "fixture_yamlToJSON sequence_yaml = Inr (JArray [JString ''a'', JString ''b''])
   \<and> getKind yaml_fixture_json sequence_yaml
     = ([], Some (YAMLUnmarshalError
          ''error unmarshaling JSON: while decoding JSON: json: cannot unmarshal array into Go value of type k8s.typeMeta''))
   \<and> Patch yaml_fixture_json sequence_yaml resCfg_test
     = (Return None (Some (YAMLUnmarshalError
          ''error unmarshaling JSON: while decoding JSON: json: cannot unmarshal array into Go value of type k8s.typeMeta'')),
        [])
   \<and> (\<exists>members. fixture_yamlToJSON capital_kind_yaml = Inr (JObject members)
         \<and> map_of members ''kind'' = None)
   \<and> getKind yaml_fixture_json capital_kind_yaml = (''Pod'', None)"
proof -
  have "\<exists>members. fixture_yamlToJSON capital_kind_yaml = Inr (JObject members)
         \<and> map_of members ''kind'' = None"
    using fixture_json_capital by blast
  then show ?thesis
    by (simp only: fixture_json_parses)
       (simp add: getKind_def Patch_refines Patch_on_values_def fixture_json_kinds)
qed

section \<open>Rewriting the .env file\<close>

lemma skipEmpty_filter: "skipEmpty ls = filter (\<lambda>l. l \<noteq> []) ls"
  by (induction ls) auto

lemma strings_Split_not_Nil: "strings_Split s sep \<noteq> []"
  by (induction s) (auto split: list.splits)

lemma strings_Split_no_sep: "l \<in> set (strings_Split s sep) \<Longrightarrow> sep \<notin> set l"
proof (induction s arbitrary: l)
  case Nil
  then show ?case by simp
next
  case (Cons c cs)
  show ?case
  proof (cases "c = sep")
    case True
    with Cons show ?thesis by auto
  next
    case False
    obtain x xs where sp: "strings_Split cs sep = x # xs"
      using strings_Split_not_Nil [of cs sep] by (cases "strings_Split cs sep") auto
    with Cons.prems False have "l = c # x \<or> l \<in> set xs" by auto
    then show ?thesis
    proof
      assume "l = c # x"
      moreover have "sep \<notin> set x" using Cons.IH [of x] sp by simp
      ultimately show ?thesis using False by auto
    next
      assume "l \<in> set xs"
      then show ?thesis using Cons.IH [of l] sp by simp
    qed
  qed
qed

lemma replaceFirst_Cons:
  "fst (replaceFirst (a # ls) key n) =
     (if strings_HasPrefix a (key @ ''='') then n # ls else a # fst (replaceFirst ls key n))"
  "snd (replaceFirst (a # ls) key n) =
     (strings_HasPrefix a (key @ ''='') \<or> snd (replaceFirst ls key n))"
  by (simp_all split: prod.splits)

text \<open>
  When the loop finds a line, it is the first with the prefix, and it alone is replaced.
\<close>

lemma replaceFirst_found:
  "snd (replaceFirst ls key n) \<Longrightarrow>
   \<exists>pre line post. ls = pre @ line # post
     \<and> (\<forall>l\<in>set pre. \<not> strings_HasPrefix l (key @ ''=''))
     \<and> strings_HasPrefix line (key @ ''='')
     \<and> fst (replaceFirst ls key n) = pre @ n # post"
proof (induction ls)
  case Nil
  then show ?case by simp
next
  case (Cons a ls)
  show ?case
  proof (cases "strings_HasPrefix a (key @ ''='')")
    case True
    then have "a # ls = [] @ a # ls \<and> (\<forall>l\<in>set []. \<not> strings_HasPrefix l (key @ ''=''))
      \<and> strings_HasPrefix a (key @ ''='') \<and> fst (replaceFirst (a # ls) key n) = [] @ n # ls"
      by simp
    then show ?thesis by blast
  next
    case False
    with Cons.prems have "snd (replaceFirst ls key n)"
      by (simp only: replaceFirst_Cons) simp
    from Cons.IH [OF this] obtain pre line post where
      h: "ls = pre @ line # post" "\<forall>l\<in>set pre. \<not> strings_HasPrefix l (key @ ''='')"
         "strings_HasPrefix line (key @ ''='')" "fst (replaceFirst ls key n) = pre @ n # post"
      by blast
    from h False have "a # ls = (a # pre) @ line # post
      \<and> (\<forall>l\<in>set (a # pre). \<not> strings_HasPrefix l (key @ ''=''))
      \<and> strings_HasPrefix line (key @ ''='')
      \<and> fst (replaceFirst (a # ls) key n) = (a # pre) @ n # post"
      by (simp only: replaceFirst_Cons) simp
    then show ?thesis by blast
  qed
qed

lemma replaceFirst_not_found:
  "\<not> snd (replaceFirst ls key n) \<Longrightarrow>
   (\<forall>l\<in>set ls. \<not> strings_HasPrefix l (key @ ''='')) \<and> fst (replaceFirst ls key n) = ls"
  by (induction ls) (simp, simp only: replaceFirst_Cons, simp)

lemma rewriteLines_eq:
  "rewriteLines input key val =
     (let old = filter (\<lambda>l. l \<noteq> []) (strings_Split input newline);
          r = replaceFirst old key (key @ ''='' @ val)
      in if snd r then fst r else fst r @ [key @ ''='' @ val])"
  by (simp add: rewriteLines_def skipEmpty_filter Let_def split: prod.splits)

lemma strings_Join_last:
  "ls \<noteq> [] \<Longrightarrow> last ls \<noteq> [] \<Longrightarrow>
   strings_Join ls sep \<noteq> [] \<and> last (strings_Join ls sep) = last (last ls)"
  by (induction ls sep rule: strings_Join.induct) auto

lemma rewriteLines_cases:
  fixes input key val
  defines "old \<equiv> filter (\<lambda>l. l \<noteq> []) (strings_Split input newline)"
      and "newLine \<equiv> key @ ''='' @ val"
  shows "(\<exists>pre line post. old = pre @ line # post
            \<and> (\<forall>l\<in>set pre. \<not> strings_HasPrefix l (key @ ''=''))
            \<and> strings_HasPrefix line (key @ ''='')
            \<and> rewriteLines input key val = pre @ newLine # post)
         \<or> ((\<forall>l\<in>set old. \<not> strings_HasPrefix l (key @ ''=''))
            \<and> rewriteLines input key val = old @ [newLine])"
proof (cases "snd (replaceFirst old key newLine)")
  case True
  from replaceFirst_found [OF True] True show ?thesis
    unfolding rewriteLines_eq old_def newLine_def Let_def by simp
next
  case False
  from replaceFirst_not_found [OF False] False show ?thesis
    unfolding rewriteLines_eq old_def newLine_def Let_def by simp
qed

lemma old_line_plain:
  "l \<in> set (filter (\<lambda>l. l \<noteq> []) (strings_Split input newline)) \<Longrightarrow> l \<noteq> [] \<and> newline \<notin> set l"
  using strings_Split_no_sep [of l input newline] by simp

lemma rewriteLines_no_empty: "[] \<notin> set (rewriteLines input key val)"
proof -
  let ?old = "filter (\<lambda>l. l \<noteq> []) (strings_Split input newline)"
  have old: "[] \<notin> set ?old" by simp
  from rewriteLines_cases [of input key val] show ?thesis
  proof (elim disjE exE conjE)
    fix pre line post
    assume o: "?old = pre @ line # post"
      and r: "rewriteLines input key val = pre @ (key @ ''='' @ val) # post"
    from old o have "[] \<notin> set pre \<and> [] \<notin> set post" by simp
    with r show ?thesis by simp
  next
    assume "rewriteLines input key val = ?old @ [key @ ''='' @ val]"
    with old show ?thesis by simp
  qed
qed

lemma rewriteLines_not_Nil: "rewriteLines input key val \<noteq> []"
  using rewriteLines_cases [of input key val] by auto

lemma newLine_last:
  "val = [] \<or> last val \<noteq> newline \<Longrightarrow> last (key @ ''='' @ val) \<noteq> newline"
  by (cases "val = []") (auto simp: newline_def)

lemma rewriteLines_last:
  assumes "val = [] \<or> last val \<noteq> newline"
  shows "last (last (rewriteLines input key val)) \<noteq> newline"
proof -
  let ?old = "filter (\<lambda>l. l \<noteq> []) (strings_Split input newline)"
  let ?n = "key @ ''='' @ val"
  have n: "last ?n \<noteq> newline" using newLine_last [OF assms] .
  from rewriteLines_cases [of input key val] show ?thesis
  proof (elim disjE exE conjE)
    fix pre line post
    assume o: "?old = pre @ line # post"
      and r: "rewriteLines input key val = pre @ ?n # post"
    show ?thesis
    proof (cases "post = []")
      case True
      with r n show ?thesis by simp
    next
      case False
      then have "last post \<in> set post" by simp
      with o have "last post \<in> set ?old" by simp
      then have "last post \<noteq> [] \<and> newline \<notin> set (last post)" by (rule old_line_plain)
      then have "last (last post) \<noteq> newline" by (metis last_in_set)
      with r False show ?thesis by simp
    qed
  next
    assume "rewriteLines input key val = ?old @ [?n]"
    with n show ?thesis by simp
  qed
qed

text \<open>
  C10, as amended. For every earlier content of the file, key and value,
  \<open>updateEnvFile\<close> writes the lines of \<open>rewriteLines\<close> joined by newlines and followed by
  one newline, where (1) no line is empty, so none of the input's empty lines is left;
  (2) the first of the input's non-empty lines that starts with the key and an equals
  sign is replaced by key=value, or key=value is appended when there is no such line;
  (3) every other non-empty line stays, in its order; and (4) when the value does not
  end with a newline, the content ends with exactly one newline: what precedes the last
  newline is not empty and does not end with a newline.
\<close>

theorem updateEnvFile_rewrites:
  "(let old = filter (\<lambda>l. l \<noteq> []) (strings_Split input newline);
        newLine = key @ ''='' @ val;
        lines = rewriteLines input key val;
        output = strings_Join lines [newline]
    in updateEnvFile (ReadOK input) key val = Some (output @ [newline])
       \<and> [] \<notin> set lines
       \<and> ((\<exists>pre line post. old = pre @ line # post
              \<and> (\<forall>l\<in>set pre. \<not> strings_HasPrefix l (key @ ''=''))
              \<and> strings_HasPrefix line (key @ ''='')
              \<and> lines = pre @ newLine # post)
            \<or> ((\<forall>l\<in>set old. \<not> strings_HasPrefix l (key @ ''=''))
              \<and> lines = old @ [newLine]))
       \<and> ((val = [] \<or> last val \<noteq> newline) \<longrightarrow> output \<noteq> [] \<and> last output \<noteq> newline))"
proof -
  have 1: "updateEnvFile (ReadOK input) key val
             = Some (strings_Join (rewriteLines input key val) [newline] @ [newline])"
    by (simp add: updateEnvFile_def)
  have 4: "strings_Join (rewriteLines input key val) [newline] \<noteq> []
           \<and> last (strings_Join (rewriteLines input key val) [newline]) \<noteq> newline"
    if "val = [] \<or> last val \<noteq> newline"
  proof -
    have "last (rewriteLines input key val) \<noteq> []"
      using rewriteLines_no_empty [of input key val] rewriteLines_not_Nil [of input key val]
      by (metis last_in_set)
    from strings_Join_last [OF rewriteLines_not_Nil this] rewriteLines_last [OF that]
    show ?thesis by simp
  qed
  from 1 rewriteLines_no_empty [of input key val] rewriteLines_cases [of input key val] 4
  show ?thesis unfolding Let_def by blast
qed

theorem updateEnvFile_rewrites_witness:
  "updateEnvFile (ReadOK ''A=1\<newline>\<newline>K=2\<newline>B=3\<newline>'') ''K'' ''v''
     = Some ''A=1\<newline>K=v\<newline>B=3\<newline>''
   \<and> [] \<notin> set (rewriteLines ''A=1\<newline>\<newline>K=2\<newline>B=3\<newline>'' ''K'' ''v'')
   \<and> last (strings_Join (rewriteLines ''A=1\<newline>\<newline>K=2\<newline>B=3\<newline>'' ''K'' ''v'') [newline])
       \<noteq> newline"
  using updateEnvFile_rewrites [of "''A=1\<newline>\<newline>K=2\<newline>B=3\<newline>''" "''K''" "''v''"]
  by (simp add: Let_def rewriteLines_def strings_HasPrefix_def newline_def)

text \<open>
  The claim as it was stated has the content end with exactly one newline for every
  value. With no earlier file content, the key \<^verbatim>\<open>K\<close> and a value that ends with a
  newline, the content written ends with two.
\<close>

theorem updateEnvFile_two_newlines_counterexample:
  "updateEnvFile (ReadOK []) ''K'' ''v\<newline>'' = Some ''K=v\<newline>\<newline>''"
  by (simp add: updateEnvFile_def rewriteLines_def strings_HasPrefix_def newline_def)

end
